theory Spec2Isabelle
  imports Main "HOL-Library.Sublist"
begin

section \<open>Python strings\<close>

text \<open>
  A Python \<open>str\<close> is modelled as a \<open>string\<close> whose characters are the code points
  below 256 (Latin-1), one \<open>char\<close> per code point.
\<close>

definition apos :: string where
  "apos = [CHR 0x27]"

text \<open>\<open>str.isalpha\<close> on one character: the letters among the code points below 256.\<close>

definition isalpha :: "char \<Rightarrow> bool" where
  "isalpha c =
     (let n = (of_char c :: nat)
      in (65 \<le> n \<and> n \<le> 90) \<or> (97 \<le> n \<and> n \<le> 122)
         \<or> n = 170 \<or> n = 181 \<or> n = 186
         \<or> (192 \<le> n \<and> n \<le> 214) \<or> (216 \<le> n \<and> n \<le> 246) \<or> (248 \<le> n \<and> n \<le> 255))"

text \<open>\<open>s.endswith(suf)\<close>.\<close>

definition endswith :: "string \<Rightarrow> string \<Rightarrow> bool" where
  "endswith s suf = suffix suf s"

text \<open>
  \<open>s.replace(old, new)\<close> replaces every non-overlapping occurrence of \<open>old\<close>, scanning
  from the left. For an empty \<open>old\<close> Python inserts \<open>new\<close> before every character and
  at the end.
\<close>

function replace_scan :: "string \<Rightarrow> string \<Rightarrow> string \<Rightarrow> string" where
  "replace_scan old new [] = []"
| "replace_scan old new (c # cs) =
     (if old \<noteq> [] \<and> prefix old (c # cs)
      then new @ replace_scan old new (drop (length old) (c # cs))
      else c # replace_scan old new cs)"
  by pat_completeness auto
termination
  by (relation "measure (\<lambda>(old, new, s). length s)") auto

definition str_replace :: "string \<Rightarrow> string \<Rightarrow> string \<Rightarrow> string" where
  "str_replace s old new =
     (if old = [] then new @ concat (map (\<lambda>c. c # new) s) else replace_scan old new s)"

text \<open>\<open>sep.join(xs)\<close>.\<close>

fun str_join :: "string \<Rightarrow> string list \<Rightarrow> string" where
  "str_join sep [] = []"
| "str_join sep [x] = x"
| "str_join sep (x # y # ys) = x @ sep @ str_join sep (y # ys)"

section \<open>Python values\<close>

text \<open>
  The values a template variable can hold (\<open>Any\<close> in the source): what \<open>json.load\<close>
  yields, and \<open>PUndefined\<close>, the object the rendering engine passes to a filter for a
  variable that is absent from the mapping (\<open>jinja2.Undefined\<close>). Floating-point numbers
  are left out.
\<close>

datatype pyval =
    PNone
  | PUndefined
  | PBool bool
  | PInt int
  | PStr string
  | PList "pyval list"
  | PDict "string \<Rightarrow> pyval option"

type_synonym variables = "string \<rightharpoonup> pyval"

text \<open>
  \<open>value == s\<close> for a \<open>str\<close> \<open>s\<close>: only a \<open>str\<close> with the same characters is equal to it.
  The engine's undefined object compares equal to objects of its own type only.
\<close>

fun py_eq_str :: "pyval \<Rightarrow> string \<Rightarrow> bool" where
  "py_eq_str (PStr t) s = (t = s)"
| "py_eq_str _ s = False"

section \<open>The registered filters\<close>

text \<open>
  \<^verbatim>\<open>return value if value is not None and value != '' else default_value\<close>
\<close>

definition default_filter :: "pyval \<Rightarrow> pyval \<Rightarrow> pyval" where
  "default_filter value default_value =
     (if value \<noteq> PNone \<and> \<not> py_eq_str value '''' then value else default_value)"

text \<open>
  \<^verbatim>\<open>
  if not value: return value
  result = value.replace('-', '_')
  if result and not (result[0].isalpha() or result[0] == '_'):
      result = '_' + result
  return result
  \<close>
\<close>

definition to_cpp_identifier_filter :: "string \<Rightarrow> string" where
  "to_cpp_identifier_filter value =
     (if value = [] then value
      else let result = str_replace value ''-'' ''_''
           in if result \<noteq> [] \<and> \<not> (isalpha (hd result) \<or> hd result = CHR ''_'')
              then ''_'' @ result
              else result)"

text \<open>
  The validity rule of the specification for the identifier filter: a string is valid
  when it is empty, or has no hyphen and starts with a letter or an underscore.
\<close>

definition valid_identifier :: "string \<Rightarrow> bool" where
  "valid_identifier s =
     (s = [] \<or> (CHR ''-'' \<notin> set s \<and> (isalpha (hd s) \<or> hd s = CHR ''_'')))"

text \<open>
  The procedure of the specification for the identifier filter, in its words: replace
  every hyphen with an underscore, then prefix an underscore if the first character is
  not a letter or underscore; the empty string stays.
\<close>

definition identifier_filter_spec :: "string \<Rightarrow> string" where
  "identifier_filter_spec s =
     (if s = [] then []
      else let r = map (\<lambda>c. if c = CHR ''-'' then CHR ''_'' else c) s
           in if isalpha (hd r) \<or> hd r = CHR ''_'' then r else CHR ''_'' # r)"

section \<open>Merging variables\<close>

text \<open>
  A \<open>dict\<close> is a map from keys to values; \<open>result.update(var_dict)\<close> sets every key of
  \<open>var_dict\<close> in \<open>result\<close>.
  \<^verbatim>\<open>
  result = {}
  for var_dict in variable_dicts:
      result.update(var_dict)
  return result
  \<close>
\<close>

definition dict_update :: "('k \<rightharpoonup> 'v) \<Rightarrow> ('k \<rightharpoonup> 'v) \<Rightarrow> ('k \<rightharpoonup> 'v)" where
  "dict_update result var_dict = result ++ var_dict"

definition merge_variables :: "('k \<rightharpoonup> 'v) list \<Rightarrow> ('k \<rightharpoonup> 'v)" where
  "merge_variables variable_dicts = foldl dict_update Map.empty variable_dicts"

section \<open>Paths\<close>

text \<open>
  A \<open>pathlib\<close> path (POSIX flavour): its anchor (empty for a relative path, one slash
  or two) and its parts below the anchor.
\<close>

datatype pure_path = PurePath (anchor: string) (parts: "string list")

text \<open>\<open>s.split(c)\<close> for one separator character.\<close>

fun str_split :: "char \<Rightarrow> string \<Rightarrow> string list" where
  "str_split c [] = [[]]"
| "str_split c (x # xs) =
     (if x = c then [] # str_split c xs
      else (case str_split c xs of
              [] \<Rightarrow> [[x]]
            | p # ps \<Rightarrow> (x # p) # ps))"

text \<open>
  Parsing a string into a path: empty and \<open>.\<close> components are dropped, \<open>..\<close> is kept;
  exactly two leading slashes are an anchor of their own.
\<close>

definition path_parts :: "string \<Rightarrow> string list" where
  "path_parts s = filter (\<lambda>p. p \<noteq> [] \<and> p \<noteq> ''.'') (str_split CHR ''/'' s)"

definition path_anchor :: "string \<Rightarrow> string" where
  "path_anchor s =
     (if prefix ''//'' s \<and> \<not> prefix ''///'' s then ''//''
      else if prefix ''/'' s then ''/''
      else [])"

definition Path :: "string \<Rightarrow> pure_path" where
  "Path s = PurePath (path_anchor s) (path_parts s)"

text \<open>\<open>p / q\<close>: an anchored right operand replaces the left one.\<close>

definition truediv :: "pure_path \<Rightarrow> pure_path \<Rightarrow> pure_path" where
  "truediv p q = (if anchor q \<noteq> [] then q else PurePath (anchor p) (parts p @ parts q))"

definition path_str :: "pure_path \<Rightarrow> string" where
  "path_str p =
     (if anchor p = [] \<and> parts p = [] then ''.'' else anchor p @ str_join ''/'' (parts p))"

definition path_name :: "pure_path \<Rightarrow> string" where
  "path_name p = (if parts p = [] then [] else last (parts p))"

definition path_parent :: "pure_path \<Rightarrow> pure_path" where
  "path_parent p = PurePath (anchor p) (butlast (parts p))"

text \<open>
  \<open>Path.suffix\<close>: the part of the name from its last dot on, when that dot is neither the
  first nor the last character of the name; otherwise the empty string.
\<close>

definition name_suffix :: "string \<Rightarrow> string" where
  "name_suffix name =
     (let ext = rev (takeWhile (\<lambda>c. c \<noteq> CHR ''.'') (rev name))
      in if CHR ''.'' \<in> set name \<and> ext \<noteq> [] \<and> length ext + 1 < length name
         then CHR ''.'' # ext
         else [])"

definition path_suffix :: "pure_path \<Rightarrow> string" where
  "path_suffix p = name_suffix (path_name p)"

text \<open>
  \<open>p.with_suffix('')\<close> for a path whose suffix is not empty (the source calls it only
  under \<open>suffix == '.template'\<close>): the suffix is cut off the name.
\<close>

definition with_suffix_empty :: "pure_path \<Rightarrow> pure_path" where
  "with_suffix_empty p =
     PurePath (anchor p)
       (butlast (parts p) @ [take (length (path_name p) - length (path_suffix p)) (path_name p)])"

section \<open>Exceptions\<close>

datatype py_error =
    ValueError string
  | FileNotFoundError string
  | RuntimeError string
  | OSError string
  | UnicodeDecodeError string
  | JSONDecodeError string
  | RecursionError string

fun error_str :: "py_error \<Rightarrow> string" where
  "error_str (ValueError m) = m"
| "error_str (FileNotFoundError m) = m"
| "error_str (RuntimeError m) = m"
| "error_str (OSError m) = m"
| "error_str (UnicodeDecodeError m) = m"
| "error_str (JSONDecodeError m) = m"
| "error_str (RecursionError m) = m"

text \<open>\<open>p.relative_to(base)\<close> on the parts of two paths with the same anchor.\<close>

definition relative_to :: "string list \<Rightarrow> string list \<Rightarrow> py_error + string list" where
  "relative_to ps base =
     (if prefix base ps then Inr (drop (length base) ps)
      else Inl (ValueError (str_join ''/'' ps @ '' is not in the subpath of '' @ str_join ''/'' base)))"

section \<open>The template library\<close>

text \<open>
  The directory tree under \<open>templates_dir\<close>, as the run finds it: a file with its
  content, or a directory with its entries in the order the operating system lists them.
  The tree is read, never written: the output directory lies outside it.
\<close>

datatype node = File string | Dir "(string \<times> node) list"

fun is_dir :: "node \<Rightarrow> bool" where
  "is_dir (Dir es) = True"
| "is_dir (File c) = False"

fun lookup_path :: "node \<Rightarrow> string list \<Rightarrow> node option" where
  "lookup_path n [] = Some n"
| "lookup_path (File c) (p # ps) = None"
| "lookup_path (Dir es) (p # ps) =
     (case map_of es p of None \<Rightarrow> None | Some n \<Rightarrow> lookup_path n ps)"

definition read_file :: "node \<Rightarrow> string list \<Rightarrow> string option" where
  "read_file t ps = (case lookup_path t ps of Some (File c) \<Rightarrow> Some c | _ \<Rightarrow> None)"

text \<open>
  \<open>os.walk(top)\<close>, top-down: one triple (directory, names of its subdirectories, names
  of its other entries) for the directory itself, then the walks of its subdirectories in order.
  Nothing is produced for a path that is not a directory. Directories are given by their
  parts relative to \<open>templates_dir\<close>.
\<close>

fun os_walk :: "string list \<Rightarrow> node \<Rightarrow> (string list \<times> string list \<times> string list) list" where
  "os_walk dirpath (File c) = []"
| "os_walk dirpath (Dir es) =
     (dirpath, map fst (filter (\<lambda>e. is_dir (snd e)) es), map fst (filter (\<lambda>e. \<not> is_dir (snd e)) es))
       # concat (map (\<lambda>e. os_walk (dirpath @ [fst e]) (snd e)) (filter (\<lambda>e. is_dir (snd e)) es))"

text \<open>
  The processor object: \<open>self.templates_dir\<close>, the tree found there, and the rendering
  engine \<open>self.env\<close> with its loader, an external collaborator: given a template path and
  the variables it renders a text, does not find the template, or fails with a message.
\<close>

datatype engine_result = Rendered string | TemplateNotFound | EngineError string

record processor =
  templates_dir :: pure_path
  tree :: node
  env :: "string \<Rightarrow> variables \<Rightarrow> engine_result"

text \<open>
  The node at \<open>templates_dir / q\<close>. A path that leaves the library (an anchored \<open>q\<close>, or
  one through \<open>..\<close>) is outside the model and counts as missing.
\<close>

definition library_node :: "processor \<Rightarrow> pure_path \<Rightarrow> node option" where
  "library_node self q = (if anchor q \<noteq> [] then None else lookup_path (tree self) (parts q))"

text \<open>
  \<^verbatim>\<open>
  project_dir = self.templates_dir / project_type
  if not project_dir.exists():
      raise ValueError(f"Project type '{project_type}' not found in templates")
  template_files = []
  for root, dirs, files in os.walk(project_dir):
      for file in files:
          if file.endswith('.template'):
              rel_path = os.path.relpath(os.path.join(root, file), self.templates_dir)
              template_files.append(rel_path)
  return template_files
  \<close>
\<close>

definition get_template_files :: "processor \<Rightarrow> string \<Rightarrow> py_error + string list" where
  "get_template_files self project_type =
     (let project_dir = Path project_type
      in case library_node self project_dir of
           None \<Rightarrow>
             Inl (ValueError (''Project type '' @ apos @ project_type @ apos @ '' not found in templates''))
         | Some n \<Rightarrow>
             Inr (concat (map (\<lambda>(root, dirs, files).
                    map (\<lambda>file. str_join ''/'' (root @ [file]))
                      (filter (\<lambda>file. endswith file ''.template'') files))
                  (os_walk (parts project_dir) n))))"

text \<open>
  \<^verbatim>\<open>rel_output_path = template_file.replace(f"{project_type}/", "").replace(".template", "")\<close>
\<close>

definition rel_output_path :: "string \<Rightarrow> string \<Rightarrow> string" where
  "rel_output_path project_type template_file =
     str_replace (str_replace template_file (project_type @ ''/'') '''') ''.template'' ''''"

section \<open>Effects\<close>

text \<open>
  What a run does to the outside: the files of the output tree with their contents, the
  permission bits set by \<open>chmod\<close>, and the sequence of effects in the order they happen
  (rendering attempts, directory creations, writes, copies, permission changes and
  printed lines). An exception leaves the world as it is at that moment: a function
  returns its result or its exception together with the world. Failures of the file
  system itself while creating a directory, writing a file or changing its permission
  bits are not modelled: these operations succeed.
\<close>

datatype effect =
    Render string
  | MkDir pure_path
  | Write pure_path string
  | Copy pure_path pure_path
  | Chmod pure_path nat
  | Print string

record world =
  disk :: "pure_path \<rightharpoonup> string"
  mode :: "pure_path \<rightharpoonup> nat"
  log :: "effect list"

definition emit :: "effect \<Rightarrow> world \<Rightarrow> world" where
  "emit e w = w\<lparr>log := log w @ [e]\<rparr>"

definition print :: "string \<Rightarrow> world \<Rightarrow> world" where
  "print msg w = emit (Print msg) w"

definition mkdir_parents :: "pure_path \<Rightarrow> world \<Rightarrow> world" where
  "mkdir_parents p w = emit (MkDir p) w"

definition write_text :: "pure_path \<Rightarrow> string \<Rightarrow> world \<Rightarrow> world" where
  "write_text p content w = emit (Write p content) (w\<lparr>disk := (disk w)(p \<mapsto> content)\<rparr>)"

definition chmod :: "pure_path \<Rightarrow> nat \<Rightarrow> world \<Rightarrow> world" where
  "chmod p m w = emit (Chmod p m) (w\<lparr>mode := (mode w)(p \<mapsto> m)\<rparr>)"

text \<open>
  \<open>shutil.copy2(src, dst)\<close> for a source inside the library, given by its parts below
  \<open>templates_dir\<close>: the content of the source becomes the content of the destination.
  It raises when the source is not a file. The metadata it also copies is not modelled.
\<close>

definition copy2 :: "processor \<Rightarrow> string list \<Rightarrow> pure_path \<Rightarrow> world \<Rightarrow> py_error + world" where
  "copy2 self src dst w =
     (case read_file (tree self) src of
        None \<Rightarrow> Inl (FileNotFoundError (path_str (truediv (templates_dir self) (PurePath [] src))))
      | Some content \<Rightarrow>
          Inr (emit (Copy (truediv (templates_dir self) (PurePath [] src)) dst)
                 (w\<lparr>disk := (disk w)(dst \<mapsto> content)\<rparr>)))"

section \<open>Rendering one template\<close>

text \<open>
  \<^verbatim>\<open>
  try:
      template = self.env.get_template(template_path)
      return template.render(**variables)
  except TemplateNotFound:
      raise FileNotFoundError(f"Template '{template_path}' not found in '{self.templates_dir}'")
  except Exception as e:
      raise RuntimeError(f"Error processing template '{template_path}': {e}")
  \<close>
\<close>

definition render_outcome :: "processor \<Rightarrow> string \<Rightarrow> engine_result \<Rightarrow> py_error + string" where
  "render_outcome self template_path r =
     (case r of
        Rendered text \<Rightarrow> Inr text
      | TemplateNotFound \<Rightarrow>
          Inl (FileNotFoundError (''Template '' @ apos @ template_path @ apos @ '' not found in ''
                 @ apos @ path_str (templates_dir self) @ apos))
      | EngineError e \<Rightarrow>
          Inl (RuntimeError (''Error processing template '' @ apos @ template_path @ apos @ '': '' @ e)))"

definition process_template ::
  "processor \<Rightarrow> string \<Rightarrow> variables \<Rightarrow> world \<Rightarrow> (py_error + string) \<times> world" where
  "process_template self template_path vars w =
     (render_outcome self template_path (env self template_path vars),
      emit (Render template_path) w)"

section \<open>Shared files\<close>

text \<open>
  One iteration of the inner loop of \<open>_copy_shared_files\<close>, for the file \<open>file\<close> of the
  directory \<open>root\<close> (parts below \<open>templates_dir\<close>); it returns the destination appended
  to \<open>processed_files\<close>.
  \<^verbatim>\<open>
  src_file = Path(root) / file
  rel_dest_path = src_file.relative_to(shared_dir)
  if rel_dest_path.suffix == '.template':
      rel_dest_path = rel_dest_path.with_suffix('')
  dest_file = output_path / rel_dest_path
  dest_file.parent.mkdir(parents=True, exist_ok=True)
  template_path_for_processing = str(src_file.relative_to(self.templates_dir))
  try:
      content = self.process_template(template_path_for_processing, variables)
      with open(dest_file, 'w', encoding='utf-8') as f:
          f.write(content)
      print(f"Processed shared file: {dest_file}")
  except Exception as e:
      if dest_file.suffix == '.sh':
          print(f"Warning: Failed to process shared script {src_file} as template: {e}. Copying directly.")
      import shutil
      shutil.copy2(src_file, dest_file)
      print(f"Copied shared file (fallback): {dest_file}")
  if dest_file.suffix == '.sh':
      dest_file.chmod(0o755)
  processed_files.append(str(dest_file))
  \<close>
\<close>

definition shared_dest :: "pure_path \<Rightarrow> string list \<Rightarrow> pure_path" where
  "shared_dest output_path rel =
     (let rel_dest_path = PurePath [] rel;
          rel_dest_path = (if path_suffix rel_dest_path = ''.template''
                           then with_suffix_empty rel_dest_path else rel_dest_path)
      in truediv output_path rel_dest_path)"

definition fallback_warning :: "processor \<Rightarrow> string list \<Rightarrow> py_error \<Rightarrow> string" where
  "fallback_warning self src e =
     ''Warning: Failed to process shared script ''
       @ path_str (truediv (templates_dir self) (PurePath [] src))
       @ '' as template: '' @ error_str e @ ''. Copying directly.''"

text \<open>The permission bits \<open>0o755\<close>.\<close>

definition rwxr_xr_x :: nat where
  "rwxr_xr_x = 7 * 64 + 5 * 8 + 5"

definition make_executable :: "pure_path \<Rightarrow> world \<Rightarrow> world" where
  "make_executable dest_file w =
     (if path_suffix dest_file = ''.sh'' then chmod dest_file rwxr_xr_x w else w)"

definition copy_shared_file ::
  "processor \<Rightarrow> pure_path \<Rightarrow> variables \<Rightarrow> string list \<Rightarrow> string \<Rightarrow> world
     \<Rightarrow> (py_error + string) \<times> world" where
  "copy_shared_file self output_path vars root file w =
     (let src = root @ [file]
      in case relative_to src [''shared''] of
           Inl e \<Rightarrow> (Inl e, w)
         | Inr rel \<Rightarrow>
             let dest_file = shared_dest output_path rel;
                 w = mkdir_parents (path_parent dest_file) w;
                 template_path_for_processing = str_join ''/'' src
             in case process_template self template_path_for_processing vars w of
                  (Inr content, w) \<Rightarrow>
                    let w = write_text dest_file content w;
                        w = print (''Processed shared file: '' @ path_str dest_file) w;
                        w = make_executable dest_file w
                    in (Inr (path_str dest_file), w)
                | (Inl e, w) \<Rightarrow>
                    let w = (if path_suffix dest_file = ''.sh''
                             then print (fallback_warning self src e) w else w)
                    in case copy2 self src dest_file w of
                         Inl e' \<Rightarrow> (Inl e', w)
                       | Inr w \<Rightarrow>
                           let w = print (''Copied shared file (fallback): '' @ path_str dest_file) w;
                               w = make_executable dest_file w
                           in (Inr (path_str dest_file), w))"

text \<open>The two nested loops, over the pairs (directory, file) in the order of the walk.\<close>

fun copy_shared_loop ::
  "processor \<Rightarrow> pure_path \<Rightarrow> variables \<Rightarrow> (string list \<times> string) list \<Rightarrow> string list \<Rightarrow> world
     \<Rightarrow> (py_error + string list) \<times> world" where
  "copy_shared_loop self output_path vars [] processed_files w = (Inr processed_files, w)"
| "copy_shared_loop self output_path vars ((root, file) # rest) processed_files w =
     (case copy_shared_file self output_path vars root file w of
        (Inl e, w) \<Rightarrow> (Inl e, w)
      | (Inr dest, w) \<Rightarrow> copy_shared_loop self output_path vars rest (processed_files @ [dest]) w)"

definition walk_files :: "string list \<Rightarrow> node \<Rightarrow> (string list \<times> string) list" where
  "walk_files dirpath n =
     concat (map (\<lambda>(root, dirs, files). map (\<lambda>file. (root, file)) files) (os_walk dirpath n))"

text \<open>
  \<^verbatim>\<open>
  shared_dir = self.templates_dir / "shared"
  if not shared_dir.exists():
      return []
  processed_files = []
  for root, dirs, files in os.walk(shared_dir):
      for file in files:
          ...
  return processed_files
  \<close>
\<close>

definition copy_shared_files ::
  "processor \<Rightarrow> pure_path \<Rightarrow> variables \<Rightarrow> world \<Rightarrow> (py_error + string list) \<times> world" where
  "copy_shared_files self output_path vars w =
     (case library_node self (Path ''shared'') of
        None \<Rightarrow> (Inr [], w)
      | Some n \<Rightarrow> copy_shared_loop self output_path vars (walk_files [''shared''] n) [] w)"

section \<open>Project files\<close>

text \<open>
  The loop over the discovered templates.
  \<^verbatim>\<open>
  for template_file in template_files:
      content = self.process_template(template_file, variables)
      rel_output_path = template_file.replace(f"{project_type}/", "").replace(".template", "")
      output_file = output_path / rel_output_path
      output_file.parent.mkdir(parents=True, exist_ok=True)
      with open(output_file, 'w', encoding='utf-8') as f:
          f.write(content)
      generated_files.append(str(output_file))
      print(f"Generated: {output_file}")
  \<close>
\<close>

definition output_file_of :: "pure_path \<Rightarrow> string \<Rightarrow> string \<Rightarrow> pure_path" where
  "output_file_of output_path project_type template_file =
     truediv output_path (Path (rel_output_path project_type template_file))"

fun render_templates ::
  "processor \<Rightarrow> pure_path \<Rightarrow> string \<Rightarrow> variables \<Rightarrow> string list \<Rightarrow> string list \<Rightarrow> world
     \<Rightarrow> (py_error + string list) \<times> world" where
  "render_templates self output_path project_type vars [] generated_files w = (Inr generated_files, w)"
| "render_templates self output_path project_type vars (template_file # rest) generated_files w =
     (case process_template self template_file vars w of
        (Inl e, w) \<Rightarrow> (Inl e, w)
      | (Inr content, w) \<Rightarrow>
          let output_file = output_file_of output_path project_type template_file;
              w = mkdir_parents (path_parent output_file) w;
              w = write_text output_file content w;
              w = print (''Generated: '' @ path_str output_file) w
          in render_templates self output_path project_type vars rest
               (generated_files @ [path_str output_file]) w)"

text \<open>
  \<^verbatim>\<open>
  output_path = Path(output_dir)
  output_path.mkdir(parents=True, exist_ok=True)
  generated_files = []
  template_files = self.get_template_files(project_type)
  for template_file in template_files: ...
  if copy_shared:
      shared_files = self._copy_shared_files(output_path, variables)
      generated_files.extend(shared_files)
  return generated_files
  \<close>
\<close>

definition generate_project_files ::
  "processor \<Rightarrow> string \<Rightarrow> string \<Rightarrow> variables \<Rightarrow> bool \<Rightarrow> world
     \<Rightarrow> (py_error + string list) \<times> world" where
  "generate_project_files self output_dir project_type vars copy_shared w =
     (let output_path = Path output_dir;
          w = mkdir_parents output_path w
      in case get_template_files self project_type of
           Inl e \<Rightarrow> (Inl e, w)
         | Inr template_files \<Rightarrow>
             (case render_templates self output_path project_type vars template_files [] w of
                (Inl e, w) \<Rightarrow> (Inl e, w)
              | (Inr generated_files, w) \<Rightarrow>
                  if copy_shared
                  then (case copy_shared_files self output_path vars w of
                          (Inl e, w) \<Rightarrow> (Inl e, w)
                        | (Inr shared_files, w) \<Rightarrow> (Inr (generated_files @ shared_files), w))
                  else (Inr generated_files, w)))"

section \<open>The configuration file\<close>

text \<open>
  Opening and reading the configuration file as UTF-8 text, and the JSON parser, are
  external collaborators. Each returns its result or raises an exception of any class:
  reading raises \<open>FileNotFoundError\<close> for a missing file, another \<open>OSError\<close> for a
  directory or a file without permission, \<open>UnicodeDecodeError\<close> for bytes that are not
  UTF-8; the parser raises \<open>JSONDecodeError\<close> for a syntax error, and also a plain
  \<open>ValueError\<close> for an integer beyond the digit limit or \<open>RecursionError\<close> for too deep
  a nesting.
  \<^verbatim>\<open>
  try:
      with open(config_file, 'r', encoding='utf-8') as f:
          return json.load(f)
  except FileNotFoundError:
      print(f"Warning: Configuration file '{config_file}' not found. Using defaults.")
      return {}
  except json.JSONDecodeError as e:
      print(f"Error: Invalid JSON in '{config_file}': {e}")
      return {}
  \<close>
  The body of the \<open>try\<close> first, then the two handlers: an exception of another class
  passes through them.
\<close>

definition load_json ::
  "(string \<Rightarrow> py_error + string) \<Rightarrow> (string \<Rightarrow> py_error + pyval) \<Rightarrow> string
     \<Rightarrow> py_error + pyval" where
  "load_json open_read json_loads config_file =
     (case open_read config_file of
        Inl e \<Rightarrow> Inl e
      | Inr s \<Rightarrow> json_loads s)"

fun load_handlers :: "string \<Rightarrow> py_error \<Rightarrow> world \<Rightarrow> (py_error + pyval) \<times> world" where
  "load_handlers config_file (FileNotFoundError m) w =
     (Inr (PDict Map.empty),
      print (''Warning: Configuration file '' @ apos @ config_file @ apos
               @ '' not found. Using defaults.'') w)"
| "load_handlers config_file (JSONDecodeError m) w =
     (Inr (PDict Map.empty),
      print (''Error: Invalid JSON in '' @ apos @ config_file @ apos @ '': '' @ m) w)"
| "load_handlers config_file e w = (Inl e, w)"

definition load_variables_from_file ::
  "(string \<Rightarrow> py_error + string) \<Rightarrow> (string \<Rightarrow> py_error + pyval) \<Rightarrow> string \<Rightarrow> world
     \<Rightarrow> (py_error + pyval) \<times> world" where
  "load_variables_from_file open_read json_loads config_file w =
     (case load_json open_read json_loads config_file of
        Inr v \<Rightarrow> (Inr v, w)
      | Inl e \<Rightarrow> load_handlers config_file e w)"

section \<open>Notions used to state the properties\<close>

text \<open>
  The files below a node, each by its parts relative to the node, directory by
  directory. A file node itself has the empty relative path.
\<close>

fun files_under :: "node \<Rightarrow> string list list" where
  "files_under (File c) = [[]]"
| "files_under (Dir es) = concat (map (\<lambda>e. map ((#) (fst e)) (files_under (snd e))) es)"

text \<open>A tree as a file system has it: the names in each directory are distinct.\<close>

fun distinct_names :: "node \<Rightarrow> bool" where
  "distinct_names (File c) = True"
| "distinct_names (Dir es) = (distinct (map fst es) \<and> list_all (\<lambda>e. distinct_names (snd e)) es)"

text \<open>The destinations written or copied to, in the order of the effects.\<close>

fun written :: "effect list \<Rightarrow> pure_path list" where
  "written [] = []"
| "written (Write p c # es) = p # written es"
| "written (Copy src p # es) = p # written es"
| "written (e # es) = written es"

text \<open>The template paths whose rendering was attempted, in order.\<close>

fun rendered :: "effect list \<Rightarrow> string list" where
  "rendered [] = []"
| "rendered (Render t # es) = t # rendered es"
| "rendered (e # es) = rendered es"

text \<open>The text the engine renders for a template (empty when it does not render it).\<close>

definition rendered_text :: "processor \<Rightarrow> variables \<Rightarrow> string \<Rightarrow> string" where
  "rendered_text self vars template_path =
     (case env self template_path vars of Rendered text \<Rightarrow> text | _ \<Rightarrow> [])"

definition renders :: "processor \<Rightarrow> variables \<Rightarrow> string \<Rightarrow> bool" where
  "renders self vars template_path =
     (case env self template_path vars of Rendered text \<Rightarrow> True | _ \<Rightarrow> False)"

text \<open>The effects of one successful iteration of the loop over the project templates.\<close>

definition template_effects ::
  "processor \<Rightarrow> pure_path \<Rightarrow> string \<Rightarrow> variables \<Rightarrow> string \<Rightarrow> effect list" where
  "template_effects self output_path project_type vars template_file =
     (let output_file = output_file_of output_path project_type template_file
      in [Render template_file,
          MkDir (path_parent output_file),
          Write output_file (rendered_text self vars template_file),
          Print (''Generated: '' @ path_str output_file)])"

text \<open>
  The extension of a source file in the sense of the specification: the marker suffix
  \<open>.template\<close>, when the name ends with it, is not the extension but is set aside first.
  A script is a file whose extension is then \<open>.sh\<close>.
\<close>

definition strip_marker :: "string \<Rightarrow> string" where
  "strip_marker name =
     (if endswith name ''.template'' then take (length name - length ''.template'') name else name)"

definition has_script_extension :: "string \<Rightarrow> bool" where
  "has_script_extension name = (name_suffix (strip_marker name) = ''.sh'')"

text \<open>
  The content a shared file leaves at its destination: the rendered text, or the content
  of the source when the engine does not render it.
\<close>

definition shared_content :: "processor \<Rightarrow> variables \<Rightarrow> string list \<Rightarrow> string option" where
  "shared_content self vars src =
     (case env self (str_join ''/'' src) vars of
        Rendered text \<Rightarrow> Some text
      | _ \<Rightarrow> read_file (tree self) src)"

text \<open>The effects of one iteration of the loop over the shared files.\<close>

definition shared_effects ::
  "processor \<Rightarrow> pure_path \<Rightarrow> variables \<Rightarrow> string list \<times> string \<Rightarrow> effect list" where
  "shared_effects self output_path vars rf =
     (let src = fst rf @ [snd rf];
          dest_file = shared_dest output_path (drop 1 src);
          template_path = str_join ''/'' src
      in [MkDir (path_parent dest_file), Render template_path]
         @ (case render_outcome self template_path (env self template_path vars) of
              Inr content \<Rightarrow>
                [Write dest_file content, Print (''Processed shared file: '' @ path_str dest_file)]
            | Inl e \<Rightarrow>
                (if path_suffix dest_file = ''.sh'' then [Print (fallback_warning self src e)] else [])
                @ [Copy (truediv (templates_dir self) (PurePath [] src)) dest_file,
                   Print (''Copied shared file (fallback): '' @ path_str dest_file)])
         @ (if path_suffix dest_file = ''.sh'' then [Chmod dest_file rwxr_xr_x] else []))"

text \<open>The shared files in the order of the walk, each as (directory, file name).\<close>

definition shared_files :: "processor \<Rightarrow> (string list \<times> string) list" where
  "shared_files self =
     (case library_node self (Path ''shared'') of
        None \<Rightarrow> []
      | Some n \<Rightarrow> walk_files [''shared''] n)"

definition empty_world :: world where
  "empty_world = \<lparr>disk = Map.empty, mode = Map.empty, log = []\<rparr>"

subsection \<open>Concrete inputs\<close>

definition defaults_example :: variables where
  "defaults_example =
     [''project_name'' \<mapsto> PStr ''MyProject'',
      ''optional_libraries'' \<mapsto> PDict [''fmt'' \<mapsto> PBool True]]"

definition config_example :: variables where
  "config_example =
     [''project_name'' \<mapsto> PStr ''Widgets'',
      ''optional_libraries'' \<mapsto> PDict [''boost'' \<mapsto> PBool True]]"

definition overrides_example :: variables where
  "overrides_example = [''optional_libraries'' \<mapsto> PDict [''openssl'' \<mapsto> PBool True]]"

text \<open>An integer literal of 4301 digits, one more than the parser converts.\<close>

definition over_long_integer :: string where
  "over_long_integer = replicate 4301 CHR ''9''"

definition example_read :: "string \<Rightarrow> py_error + string" where
  "example_read path =
     (if path = ''missing.json'' then Inl (FileNotFoundError ''No such file or directory'')
      else if path = ''broken.json'' then Inr ''{''
      else if path = ''confdir'' then Inl (OSError ''Is a directory'')
      else if path = ''utf16.json'' then Inl (UnicodeDecodeError ''invalid start byte'')
      else if path = ''bigint.json'' then Inr over_long_integer
      else Inr ''{}'')"

definition example_json :: "string \<Rightarrow> py_error + pyval" where
  "example_json s =
     (if 4300 < length s \<and> list_all (\<lambda>c. c = CHR ''9'') s
      then Inl (ValueError ''Exceeds the limit (4300 digits) for integer string conversion'')
      else if s = ''{}'' then Inr (PDict Map.empty)
      else Inl (JSONDecodeError ''Expecting property name enclosed in double quotes''))"

definition example_tree :: node where
  "example_tree =
     Dir [(''console'',
           Dir [(''CMakeLists.txt.template'', File ''project({{ project_name }})''),
                (''README.md'', File ''notes''),
                (''src'', Dir [(''main.cpp.template'', File ''int main() {}'')])]),
          (''shared'',
           Dir [(''build.sh.template'', File ''cmake -B {{ build_dir ''),
                (''cmake'', Dir [(''Warnings.cmake'', File ''add_compile_options(-Wall)'')])])]"

definition example_engine :: "string \<Rightarrow> variables \<Rightarrow> engine_result" where
  "example_engine template_path vars =
     (if template_path = ''console/CMakeLists.txt.template'' then Rendered ''project(Widgets)''
      else if template_path = ''console/src/main.cpp.template'' then Rendered ''int main() {}''
      else if template_path = ''shared/cmake/Warnings.cmake'' then Rendered ''add_compile_options(-Wall)''
      else if template_path = ''shared/build.sh.template'' then EngineError ''unexpected end of template''
      else TemplateNotFound)"

definition example_processor :: processor where
  "example_processor = \<lparr>templates_dir = Path ''templates'', tree = example_tree, env = example_engine\<rparr>"

text \<open>A library with a directory named like the category below the category root.\<close>

definition nested_processor :: processor where
  "nested_processor =
     \<lparr>templates_dir = Path ''templates'',
      tree = Dir [(''console'',
                   Dir [(''include'',
                         Dir [(''console'', Dir [(''app.hpp.template'', File ''#pragma once'')])])])],
      env = example_engine\<rparr>"

text \<open>The same library with an engine that fails on the second console template.\<close>

definition failing_engine :: "string \<Rightarrow> variables \<Rightarrow> engine_result" where
  "failing_engine template_path vars =
     (if template_path = ''console/CMakeLists.txt.template'' then Rendered ''project(Widgets)''
      else if template_path = ''console/src/main.cpp.template'' then EngineError ''undefined variable''
      else TemplateNotFound)"

definition failing_processor :: processor where
  "failing_processor = \<lparr>templates_dir = Path ''templates'', tree = example_tree, env = failing_engine\<rparr>"

section \<open>Properties of the filters\<close>

lemma replace_scan_char:
  "replace_scan [a] [b] s = map (\<lambda>c. if c = a then b else c) s"
  by (induction s) auto

lemma str_replace_char:
  "str_replace s [a] [b] = map (\<lambda>c. if c = a then b else c) s"
  by (simp add: str_replace_def replace_scan_char)

lemma to_cpp_identifier_filter_eq_spec:
  "to_cpp_identifier_filter s = identifier_filter_spec s"
  by (auto simp add: to_cpp_identifier_filter_def identifier_filter_spec_def str_replace_char Let_def)

lemma valid_identifier_filter_spec: "valid_identifier (identifier_filter_spec s)"
  by (auto simp add: identifier_filter_spec_def valid_identifier_def Let_def)

lemma map_hyphen_id:
  "CHR ''-'' \<notin> set s \<Longrightarrow> map (\<lambda>c. if c = CHR ''-'' then CHR ''_'' else c) s = s"
  by (induction s) auto

lemma identifier_filter_spec_fixes_valid:
  assumes "valid_identifier s"
  shows "identifier_filter_spec s = s"
proof (cases "s = []")
  case True
  then show ?thesis by (simp add: identifier_filter_spec_def)
next
  case False
  with assms have nh: "CHR ''-'' \<notin> set s" and st: "isalpha (hd s) \<or> hd s = CHR ''_''"
    by (simp_all add: valid_identifier_def)
  from nh have "map (\<lambda>c. if c = CHR ''-'' then CHR ''_'' else c) s = s"
    by (rule map_hyphen_id)
  with False st show ?thesis
    by (simp add: identifier_filter_spec_def Let_def)
qed

text \<open>What the filter computes, for every value.\<close>

lemma default_filter_cases:
  "default_filter v d = (if v = PNone \<or> v = PStr '''' then d else v)"
  by (cases v) (simp_all add: default_filter_def)

text \<open>The three examples of C4 hold.\<close>

lemma default_filter_examples:
  "default_filter PNone (PStr ''x'') = PStr ''x''
   \<and> default_filter (PStr '''') (PStr ''x'') = PStr ''x''
   \<and> default_filter (PStr ''y'') (PStr ''x'') = PStr ''y''"
  by (simp add: default_filter_cases)

text \<open>
  C4 at an absent variable. For a variable that is absent from the mapping the engine
  passes its undefined object to the filter. The filter, registered under the name of the
  engine's own default filter, returns that object and not the fallback, which the claim
  gives for an absent value.
\<close>

theorem default_filter_absent_value:
  "default_filter PUndefined (PStr ''x'') = PUndefined
   \<and> default_filter PUndefined (PStr ''x'') \<noteq> PStr ''x''"
  by (simp add: default_filter_def)

text \<open>
  C5. The identifier filter is the procedure of the specification: every hyphen becomes
  an underscore, then an underscore is prefixed if the first character is not a letter or
  underscore, and the empty string is returned unchanged. Its result satisfies the
  validity rule (empty, or no hyphen and a letter or underscore first). The three
  examples hold.
\<close>

theorem identifier_filter_correct:
  "to_cpp_identifier_filter s = identifier_filter_spec s
   \<and> valid_identifier (to_cpp_identifier_filter s)
   \<and> to_cpp_identifier_filter ''my-project'' = ''my_project''
   \<and> to_cpp_identifier_filter ''123abc'' = ''_123abc''
   \<and> to_cpp_identifier_filter '''' = ''''"
proof -
  have "to_cpp_identifier_filter ''my-project'' = ''my_project''"
    by (simp add: to_cpp_identifier_filter_eq_spec identifier_filter_spec_def isalpha_def)
  moreover have "to_cpp_identifier_filter ''123abc'' = ''_123abc''"
    by (simp add: to_cpp_identifier_filter_eq_spec identifier_filter_spec_def isalpha_def)
  moreover have "to_cpp_identifier_filter '''' = ''''"
    by (simp add: to_cpp_identifier_filter_def)
  ultimately show ?thesis
    by (simp add: to_cpp_identifier_filter_eq_spec valid_identifier_filter_spec)
qed

theorem identifier_filter_correct_witness:
  "to_cpp_identifier_filter ''9-lives-left'' = ''_9_lives_left'' \<and> valid_identifier ''_9_lives_left''"
proof -
  have spec: "identifier_filter_spec ''9-lives-left'' = ''_9_lives_left''"
    by (simp add: identifier_filter_spec_def isalpha_def)
  from identifier_filter_correct [of "''9-lives-left''"]
  have "to_cpp_identifier_filter ''9-lives-left'' = identifier_filter_spec ''9-lives-left''"
    and "valid_identifier (to_cpp_identifier_filter ''9-lives-left'')"
    by blast+
  with spec show ?thesis by simp
qed

text \<open>
  C6. On a string that already satisfies the validity rule, applying the identifier
  filter twice equals applying it once.
\<close>

theorem identifier_filter_idempotent:
  "valid_identifier x \<Longrightarrow>
     to_cpp_identifier_filter (to_cpp_identifier_filter x) = to_cpp_identifier_filter x"
  by (simp add: to_cpp_identifier_filter_eq_spec identifier_filter_spec_fixes_valid)

theorem identifier_filter_idempotent_witness:
  "valid_identifier ''my_project''
   \<and> to_cpp_identifier_filter (to_cpp_identifier_filter ''my_project'')
       = to_cpp_identifier_filter ''my_project''"
proof -
  have v: "valid_identifier ''my_project''"
    by (simp add: valid_identifier_def isalpha_def)
  from v identifier_filter_idempotent [OF v] show ?thesis by simp
qed

text \<open>The filter is idempotent on every string, valid or not.\<close>

lemma to_cpp_identifier_filter_idem:
  "to_cpp_identifier_filter (to_cpp_identifier_filter s) = to_cpp_identifier_filter s"
  by (simp add: to_cpp_identifier_filter_eq_spec identifier_filter_spec_fixes_valid
        valid_identifier_filter_spec)

section \<open>Properties of merging\<close>

lemma merge_variables_three: "merge_variables [D, C, V] = D ++ C ++ V"
  by (simp add: merge_variables_def dict_update_def)

text \<open>An empty configuration leaves the variables as they are.\<close>

lemma merge_variables_empty_config: "merge_variables [D, Map.empty] = D"
  by (simp add: merge_variables_def dict_update_def)

text \<open>Merging in two steps, as the command line does, gives the same mapping.\<close>

lemma merge_variables_stepwise:
  "merge_variables [merge_variables [D, C], V] = merge_variables [D, C, V]"
  by (simp add: merge_variables_def dict_update_def)

text \<open>
  C1. Merging defaults \<open>D\<close>, configuration \<open>C\<close> and overrides \<open>V\<close> is a shallow overwrite
  by precedence. At a key present in all three the result is the value of \<open>V\<close>; at a key
  present in \<open>D\<close> and \<open>C\<close> only it is the value of \<open>C\<close>. When \<open>C\<close> and \<open>V\<close> both hold a
  nested mapping at the key, the result is exactly the nested mapping of \<open>V\<close>; with
  disjoint sub-keys (and some sub-key in the mapping of \<open>C\<close>) it is not the merge of the
  two nested mappings.
\<close>

theorem merge_variables_precedence:
  fixes D C V :: variables
  shows "(k \<in> dom D \<and> k \<in> dom C \<and> k \<in> dom V \<longrightarrow> merge_variables [D, C, V] k = V k)
       \<and> (k \<in> dom D \<and> k \<in> dom C \<and> k \<notin> dom V \<longrightarrow> merge_variables [D, C, V] k = C k)
       \<and> (C k = Some (PDict nc) \<and> V k = Some (PDict nv)
            \<longrightarrow> merge_variables [D, C, V] k = Some (PDict nv))
       \<and> (C k = Some (PDict nc) \<and> V k = Some (PDict nv) \<and> dom nc \<inter> dom nv = {} \<and> dom nc \<noteq> {}
            \<longrightarrow> merge_variables [D, C, V] k \<noteq> Some (PDict (dict_update nc nv)))"
proof -
  have differ: "nv \<noteq> nc ++ nv" if "dom nc \<inter> dom nv = {}" "dom nc \<noteq> {}"
  proof -
    from that obtain j where j: "j \<in> dom nc" "j \<notin> dom nv" by blast
    then have "(nc ++ nv) j = nc j" by (simp add: map_add_dom_app_simps)
    with j have "(nc ++ nv) j \<noteq> nv j" by (auto simp add: dom_def)
    then show ?thesis by metis
  qed
  show ?thesis
    using differ
    by (auto simp add: merge_variables_three dict_update_def map_add_dom_app_simps domIff
             simp del: map_add_assoc)
qed

theorem merge_variables_precedence_witness:
  "merge_variables [defaults_example, config_example, overrides_example] ''optional_libraries''
     = Some (PDict [''openssl'' \<mapsto> PBool True])
   \<and> merge_variables [defaults_example, config_example, overrides_example] ''optional_libraries''
     \<noteq> Some (PDict (dict_update [''boost'' \<mapsto> PBool True] [''openssl'' \<mapsto> PBool True]))
   \<and> merge_variables [defaults_example, config_example, overrides_example] ''project_name''
     = Some (PStr ''Widgets'')"
proof -
  have d: "''optional_libraries'' \<in> dom defaults_example" "''project_name'' \<in> dom defaults_example"
    by (simp_all add: defaults_example_def)
  have c: "''optional_libraries'' \<in> dom config_example" "''project_name'' \<in> dom config_example"
    "config_example ''optional_libraries'' = Some (PDict [''boost'' \<mapsto> PBool True])"
    "config_example ''project_name'' = Some (PStr ''Widgets'')"
    by (simp_all add: config_example_def)
  have v: "''optional_libraries'' \<in> dom overrides_example" "''project_name'' \<notin> dom overrides_example"
    "overrides_example ''optional_libraries'' = Some (PDict [''openssl'' \<mapsto> PBool True])"
    by (simp_all add: overrides_example_def)
  have n: "dom [''boost'' \<mapsto> PBool True] \<inter> dom [''openssl'' \<mapsto> PBool True] = {}"
    "dom [''boost'' \<mapsto> PBool True] \<noteq> {}"
    by simp_all
  from merge_variables_precedence
         [where k = "''optional_libraries''" and D = defaults_example and C = config_example
            and V = overrides_example and nc = "[''boost'' \<mapsto> PBool True]"
            and nv = "[''openssl'' \<mapsto> PBool True]"]
       d c v n
  have r1: "merge_variables [defaults_example, config_example, overrides_example] ''optional_libraries''
              = Some (PDict [''openssl'' \<mapsto> PBool True])"
    and r2: "merge_variables [defaults_example, config_example, overrides_example] ''optional_libraries''
              \<noteq> Some (PDict (dict_update [''boost'' \<mapsto> PBool True] [''openssl'' \<mapsto> PBool True]))"
    by blast+
  from merge_variables_precedence
         [where k = "''project_name''" and D = defaults_example and C = config_example
            and V = overrides_example]
       d c v
  have r3: "merge_variables [defaults_example, config_example, overrides_example] ''project_name''
              = Some (PStr ''Widgets'')"
    by metis
  from r1 r2 r3 show ?thesis by blast
qed

section \<open>Properties of the output path\<close>

text \<open>The example of the specification, with the marker suffix of the code.\<close>

lemma rel_output_path_example:
  "rel_output_path ''console'' ''console/src/main.cpp.template'' = ''src/main.cpp''"
  by (simp add: rel_output_path_def str_replace_def)

text \<open>
  C2 at a template that discovery returns for a directory named like the category: the
  derivation removes the inner \<open>console/\<close> as well, where the claim keeps the directories
  below the category root as they are.
\<close>

theorem rel_output_path_inner_occurrences:
  "get_template_files nested_processor ''console'' = Inr [''console/include/console/app.hpp.template'']
   \<and> rel_output_path ''console'' ''console/include/console/app.hpp.template'' = ''include/app.hpp''
   \<and> rel_output_path ''console'' ''console/include/console/app.hpp.template''
       \<noteq> ''include/console/app.hpp''"
proof -
  have "get_template_files nested_processor ''console'' = Inr [''console/include/console/app.hpp.template'']"
    by code_simp
  then show ?thesis
    by (simp add: rel_output_path_def str_replace_def)
qed

text \<open>The same for the marker suffix inside a directory name.\<close>

lemma rel_output_path_inner_marker:
  "rel_output_path ''console'' ''console/cmake.template.d/Config.cmake.template''
     = ''cmake.d/Config.cmake''"
  by (simp add: rel_output_path_def str_replace_def)

section \<open>Properties of the configuration loader\<close>

lemma load_handlers_raises:
  "fst (load_handlers f e w) = Inl err \<longleftrightarrow>
     e = err \<and> (\<forall>m. err \<noteq> FileNotFoundError m) \<and> (\<forall>m. err \<noteq> JSONDecodeError m)"
  by (cases e) auto

lemma example_json_over_long:
  "example_json over_long_integer =
     Inl (ValueError ''Exceeds the limit (4300 digits) for integer string conversion'')"
proof -
  have "length over_long_integer = 4301"
    unfolding over_long_integer_def by (simp only: length_replicate)
  moreover have "list_all (\<lambda>c. c = CHR ''9'') over_long_integer"
    unfolding over_long_integer_def list_all_iff by (simp only: set_replicate_conv_if) simp
  ultimately show ?thesis
    by (simp add: example_json_def)
qed

text \<open>
  C9, as the code has it. When the file is missing (reading raises \<open>FileNotFoundError\<close>)
  the loader returns the empty mapping and prints a warning; when the parser reports a
  syntax error (\<open>JSONDecodeError\<close>) it returns the empty mapping and prints a message
  that ends with the parse error. The loader raises into its caller exactly the
  exceptions of any other class that reading or the parser raise.
\<close>

theorem load_variables_recovery:
  "(open_read f = Inl (FileNotFoundError m) \<longrightarrow>
      load_variables_from_file open_read json_loads f w =
        (Inr (PDict Map.empty),
         print (''Warning: Configuration file '' @ apos @ f @ apos @ '' not found. Using defaults.'') w))
   \<and> (open_read f = Inr s \<and> json_loads s = Inl (JSONDecodeError e) \<longrightarrow>
      load_variables_from_file open_read json_loads f w =
        (Inr (PDict Map.empty),
         print (''Error: Invalid JSON in '' @ apos @ f @ apos @ '': '' @ e) w))
   \<and> (fst (load_variables_from_file open_read json_loads f w) = Inl err \<longleftrightarrow>
        (open_read f = Inl err \<or> (\<exists>s. open_read f = Inr s \<and> json_loads s = Inl err))
        \<and> (\<forall>m. err \<noteq> FileNotFoundError m) \<and> (\<forall>m. err \<noteq> JSONDecodeError m))"
proof (intro conjI impI)
  assume "open_read f = Inl (FileNotFoundError m)"
  then show "load_variables_from_file open_read json_loads f w =
        (Inr (PDict Map.empty),
         print (''Warning: Configuration file '' @ apos @ f @ apos @ '' not found. Using defaults.'') w)"
    by (simp add: load_variables_from_file_def load_json_def)
next
  assume "open_read f = Inr s \<and> json_loads s = Inl (JSONDecodeError e)"
  then show "load_variables_from_file open_read json_loads f w =
        (Inr (PDict Map.empty),
         print (''Error: Invalid JSON in '' @ apos @ f @ apos @ '': '' @ e) w)"
    by (simp add: load_variables_from_file_def load_json_def)
next
  have body: "load_json open_read json_loads f = Inl x \<longleftrightarrow>
        (open_read f = Inl x \<or> (\<exists>s. open_read f = Inr s \<and> json_loads s = Inl x))" for x
    by (simp add: load_json_def split: sum.splits)
  show "fst (load_variables_from_file open_read json_loads f w) = Inl err \<longleftrightarrow>
        (open_read f = Inl err \<or> (\<exists>s. open_read f = Inr s \<and> json_loads s = Inl err))
        \<and> (\<forall>m. err \<noteq> FileNotFoundError m) \<and> (\<forall>m. err \<noteq> JSONDecodeError m)"
  proof (cases "load_json open_read json_loads f")
    case (Inl x)
    then have "fst (load_variables_from_file open_read json_loads f w) = Inl err \<longleftrightarrow>
        x = err \<and> (\<forall>m. err \<noteq> FileNotFoundError m) \<and> (\<forall>m. err \<noteq> JSONDecodeError m)"
      by (simp add: load_variables_from_file_def load_handlers_raises)
    moreover from Inl body [of err]
    have "(open_read f = Inl err \<or> (\<exists>s. open_read f = Inr s \<and> json_loads s = Inl err)) \<longleftrightarrow> x = err"
      by auto
    ultimately show ?thesis by blast
  next
    case (Inr v)
    then have "fst (load_variables_from_file open_read json_loads f w) \<noteq> Inl err"
      by (simp add: load_variables_from_file_def)
    moreover from Inr body [of err]
    have "\<not> (open_read f = Inl err \<or> (\<exists>s. open_read f = Inr s \<and> json_loads s = Inl err))"
      by simp
    ultimately show ?thesis by blast
  qed
qed

theorem load_variables_recovery_witness:
  "load_variables_from_file example_read example_json ''missing.json'' empty_world =
     (Inr (PDict Map.empty),
      print (''Warning: Configuration file '' @ apos @ ''missing.json'' @ apos
               @ '' not found. Using defaults.'') empty_world)
   \<and> load_variables_from_file example_read example_json ''broken.json'' empty_world =
     (Inr (PDict Map.empty),
      print (''Error: Invalid JSON in '' @ apos @ ''broken.json'' @ apos @ '': ''
               @ ''Expecting property name enclosed in double quotes'') empty_world)
   \<and> fst (load_variables_from_file example_read example_json ''bigint.json'' empty_world) =
       Inl (ValueError ''Exceeds the limit (4300 digits) for integer string conversion'')"
proof -
  have a: "example_read ''missing.json'' = Inl (FileNotFoundError ''No such file or directory'')"
    and b: "example_read ''broken.json'' = Inr ''{''"
    and c: "example_json ''{'' = Inl (JSONDecodeError ''Expecting property name enclosed in double quotes'')"
    and d: "example_read ''bigint.json'' = Inr over_long_integer"
    by (simp_all add: example_read_def example_json_def)
  from load_variables_recovery
         [where open_read = example_read and f = "''missing.json''" and json_loads = example_json
            and w = empty_world and m = "''No such file or directory''"] a
  have r1: "load_variables_from_file example_read example_json ''missing.json'' empty_world =
     (Inr (PDict Map.empty),
      print (''Warning: Configuration file '' @ apos @ ''missing.json'' @ apos
               @ '' not found. Using defaults.'') empty_world)"
    by blast
  from load_variables_recovery
         [where open_read = example_read and f = "''broken.json''" and json_loads = example_json
            and w = empty_world and s = "''{''"
            and e = "''Expecting property name enclosed in double quotes''"] b c
  have r2: "load_variables_from_file example_read example_json ''broken.json'' empty_world =
     (Inr (PDict Map.empty),
      print (''Error: Invalid JSON in '' @ apos @ ''broken.json'' @ apos @ '': ''
               @ ''Expecting property name enclosed in double quotes'') empty_world)"
    by blast
  from load_variables_recovery
         [where open_read = example_read and f = "''bigint.json''" and json_loads = example_json
            and w = empty_world
            and err = "ValueError ''Exceeds the limit (4300 digits) for integer string conversion''"]
       d example_json_over_long
  have r3: "fst (load_variables_from_file example_read example_json ''bigint.json'' empty_world) =
       Inl (ValueError ''Exceeds the limit (4300 digits) for integer string conversion'')"
    by simp
  from r1 r2 r3 show ?thesis by blast
qed

text \<open>
  C9 as stated fails: a configuration path that names a directory, a configuration
  file whose bytes are not UTF-8, and a configuration file holding an integer beyond the
  parser's digit limit make the loader raise.
\<close>

theorem load_variables_raises_counterexample:
  "fst (load_variables_from_file example_read example_json ''confdir'' empty_world)
     = Inl (OSError ''Is a directory'')
   \<and> fst (load_variables_from_file example_read example_json ''utf16.json'' empty_world)
     = Inl (UnicodeDecodeError ''invalid start byte'')
   \<and> fst (load_variables_from_file example_read example_json ''bigint.json'' empty_world)
     = Inl (ValueError ''Exceeds the limit (4300 digits) for integer string conversion'')"
proof -
  have "example_read ''bigint.json'' = Inr over_long_integer"
    by (simp add: example_read_def)
  then have "fst (load_variables_from_file example_read example_json ''bigint.json'' empty_world)
     = Inl (ValueError ''Exceeds the limit (4300 digits) for integer string conversion'')"
    by (simp add: load_variables_from_file_def load_json_def example_json_over_long)
  then show ?thesis
    by (simp add: load_variables_from_file_def load_json_def example_read_def)
qed

section \<open>Properties of discovery\<close>

lemma walk_files_File: "walk_files d (File c) = []"
  by (simp add: walk_files_def)

lemma concat_concat_map: "concat (concat (map f xs)) = concat (map (\<lambda>x. concat (f x)) xs)"
  by (induction xs) simp_all

lemma walk_files_Dir:
  "walk_files d (Dir es) =
     map (Pair d) (map fst (filter (\<lambda>e. \<not> is_dir (snd e)) es))
       @ concat (map (\<lambda>e. walk_files (d @ [fst e]) (snd e)) (filter (\<lambda>e. is_dir (snd e)) es))"
  by (simp add: walk_files_def map_concat comp_def concat_concat_map)

lemma files_under_nonempty: "[] \<notin> set (files_under (Dir es))"
  by auto

lemma files_under_not_dir: "\<not> is_dir n \<Longrightarrow> files_under n = [[]]"
  by (cases n) simp_all

lemma in_files_under_Dir:
  "p \<in> set (files_under (Dir es)) \<longleftrightarrow> (\<exists>e \<in> set es. \<exists>p' \<in> set (files_under (snd e)). p = fst e # p')"
  by auto

lemma in_walk_files_Dir:
  "(r, f) \<in> set (walk_files d (Dir es)) \<longleftrightarrow>
     (r = d \<and> (\<exists>e \<in> set es. \<not> is_dir (snd e) \<and> f = fst e))
     \<or> (\<exists>e \<in> set es. is_dir (snd e) \<and> (r, f) \<in> set (walk_files (d @ [fst e]) (snd e)))"
  unfolding walk_files_Dir by force

text \<open>The walk lists exactly the files below the node, each under its directory.\<close>

lemma in_walk_files:
  "(r, f) \<in> set (walk_files d n) \<longleftrightarrow> (\<exists>q. q @ [f] \<in> set (files_under n) \<and> r = d @ q)"
proof (induction d n arbitrary: r rule: os_walk.induct)
  case (1 dirpath c)
  show ?case by (simp add: walk_files_File)
next
  case (2 dirpath es)
  have IH: "(r, f) \<in> set (walk_files (dirpath @ [fst e]) (snd e)) \<longleftrightarrow>
              (\<exists>q. q @ [f] \<in> set (files_under (snd e)) \<and> r = (dirpath @ [fst e]) @ q)"
    if "e \<in> set es" "is_dir (snd e)" for e r
    using "2.IH" [of e r] that by simp
  show ?case
  proof
    assume "(r, f) \<in> set (walk_files dirpath (Dir es))"
    then consider
        (here) e where "e \<in> set es" "\<not> is_dir (snd e)" "f = fst e" "r = dirpath"
      | (below) e where "e \<in> set es" "is_dir (snd e)"
          "(r, f) \<in> set (walk_files (dirpath @ [fst e]) (snd e))"
      unfolding in_walk_files_Dir by blast
    then show "\<exists>q. q @ [f] \<in> set (files_under (Dir es)) \<and> r = dirpath @ q"
    proof cases
      case here
      then have "[] @ [f] \<in> set (files_under (Dir es))"
        unfolding in_files_under_Dir by (auto simp add: files_under_not_dir)
      with here show ?thesis by (intro exI [of _ "[]"]) simp
    next
      case below
      with IH [of e r] obtain q where q: "q @ [f] \<in> set (files_under (snd e))"
        "r = (dirpath @ [fst e]) @ q" by blast
      from below(1) q(1) have "(fst e # q) @ [f] \<in> set (files_under (Dir es))"
        unfolding in_files_under_Dir by auto
      with q(2) show ?thesis by (intro exI [of _ "fst e # q"]) simp
    qed
  next
    assume "\<exists>q. q @ [f] \<in> set (files_under (Dir es)) \<and> r = dirpath @ q"
    then obtain q where q: "q @ [f] \<in> set (files_under (Dir es))" "r = dirpath @ q" by blast
    from q(1) obtain e p' where e: "e \<in> set es" "p' \<in> set (files_under (snd e))"
      "q @ [f] = fst e # p'"
      unfolding in_files_under_Dir by blast
    show "(r, f) \<in> set (walk_files dirpath (Dir es))"
    proof (cases "is_dir (snd e)")
      case False
      with e(2) have "p' = []" by (simp add: files_under_not_dir)
      with e(3) have "q = []" "f = fst e" by (auto simp add: append_eq_Cons_conv)
      with q(2) e(1) False show ?thesis unfolding in_walk_files_Dir by auto
    next
      case True
      then obtain es' where "snd e = Dir es'" by (cases "snd e") auto
      with e(2) have "p' \<noteq> []" using files_under_nonempty [of es'] by auto
      with e(3) obtain q' where q': "q = fst e # q'" "p' = q' @ [f]"
        by (cases q) auto
      with e(2) q(2) have "(r, f) \<in> set (walk_files (dirpath @ [fst e]) (snd e))"
        using IH [OF e(1) True, of r] by auto
      with e(1) True show ?thesis unfolding in_walk_files_Dir by blast
    qed
  qed
qed

lemma get_template_files_walk:
  "get_template_files self project_type =
     (case library_node self (Path project_type) of
        None \<Rightarrow> Inl (ValueError (''Project type '' @ apos @ project_type @ apos @ '' not found in templates''))
      | Some n \<Rightarrow>
          Inr (map (\<lambda>(root, file). str_join ''/'' (root @ [file]))
                 (filter (\<lambda>(root, file). endswith file ''.template'')
                    (walk_files (parts (Path project_type)) n))))"
proof -
  have "concat (map (\<lambda>(root, dirs, files).
                    map (\<lambda>file. str_join ''/'' (root @ [file]))
                      (filter (\<lambda>file. endswith file ''.template'') files)) ws)
        = map (\<lambda>(root, file). str_join ''/'' (root @ [file]))
                 (filter (\<lambda>(root, file). endswith file ''.template'')
                    (concat (map (\<lambda>(root, dirs, files). map (\<lambda>file. (root, file)) files) ws)))"
    for ws :: "(string list \<times> string list \<times> string list) list"
    by (induction ws) (auto simp add: filter_map comp_def)
  then show ?thesis
    by (simp add: get_template_files_def walk_files_def Let_def split: option.splits)
qed

text \<open>
  C7. Discovery fails with the \<open>ValueError\<close> for a missing category exactly when nothing
  exists at the category root. When a node exists there, discovery returns a list whose
  entries are exactly the paths (from the library root) of the files below the category
  root whose name ends with \<open>.template\<close>.
\<close>

theorem get_template_files_discovery:
  "(library_node self (Path project_type) = None \<longrightarrow>
      get_template_files self project_type =
        Inl (ValueError (''Project type '' @ apos @ project_type @ apos @ '' not found in templates'')))
   \<and> (\<forall>n. library_node self (Path project_type) = Some n \<longrightarrow>
        (\<exists>ts. get_template_files self project_type = Inr ts
            \<and> set ts = (\<lambda>p. str_join ''/'' (parts (Path project_type) @ p))
                         ` {p \<in> set (files_under n). p \<noteq> [] \<and> endswith (last p) ''.template''}))"
proof (intro conjI allI impI)
  assume "library_node self (Path project_type) = None"
  then show "get_template_files self project_type =
        Inl (ValueError (''Project type '' @ apos @ project_type @ apos @ '' not found in templates''))"
    by (simp add: get_template_files_walk)
next
  fix n
  assume n: "library_node self (Path project_type) = Some n"
  let ?d = "parts (Path project_type)"
  let ?ts = "map (\<lambda>(root, file). str_join ''/'' (root @ [file]))
                 (filter (\<lambda>(root, file). endswith file ''.template'') (walk_files ?d n))"
  have "set ?ts = (\<lambda>p. str_join ''/'' (?d @ p))
                         ` {p \<in> set (files_under n). p \<noteq> [] \<and> endswith (last p) ''.template''}"
    (is "?L = ?R")
  proof (intro set_eqI iffI)
    fix x assume "x \<in> ?L"
    then obtain r f where rf: "(r, f) \<in> set (walk_files ?d n)" "endswith f ''.template''"
      "x = str_join ''/'' (r @ [f])" by auto
    from rf(1) obtain q where q: "q @ [f] \<in> set (files_under n)" "r = ?d @ q"
      unfolding in_walk_files by blast
    with rf(2,3) show "x \<in> ?R"
      by (intro image_eqI [of _ _ "q @ [f]"]) simp_all
  next
    fix x assume "x \<in> ?R"
    then obtain p where p: "p \<in> set (files_under n)" "p \<noteq> []" "endswith (last p) ''.template''"
      "x = str_join ''/'' (?d @ p)" by auto
    from p(2) have bl: "butlast p @ [last p] = p" by simp
    with p(1) have "(?d @ butlast p, last p) \<in> set (walk_files ?d n)"
      unfolding in_walk_files by auto
    with p(3) have "(?d @ butlast p, last p)
        \<in> set (filter (\<lambda>(root, file). endswith file ''.template'') (walk_files ?d n))"
      by simp
    moreover from p(4) bl
    have "x = (\<lambda>(root, file). str_join ''/'' (root @ [file])) (?d @ butlast p, last p)"
      by simp
    ultimately show "x \<in> ?L" unfolding set_map by (rule image_eqI [rotated])
  qed
  with n show "\<exists>ts. get_template_files self project_type = Inr ts
            \<and> set ts = (\<lambda>p. str_join ''/'' (?d @ p))
                         ` {p \<in> set (files_under n). p \<noteq> [] \<and> endswith (last p) ''.template''}"
    by (simp add: get_template_files_walk)
qed

section \<open>Properties of project generation\<close>

lemma written_append: "written (xs @ ys) = written xs @ written ys"
  by (induction xs rule: written.induct) simp_all

lemma rendered_append: "rendered (xs @ ys) = rendered xs @ rendered ys"
  by (induction xs rule: rendered.induct) simp_all

lemma renders_cases:
  "renders self vars t \<longleftrightarrow> env self t vars = Rendered (rendered_text self vars t)"
  by (simp add: renders_def rendered_text_def split: engine_result.splits)

lemma not_renders_error:
  "\<not> renders self vars t \<Longrightarrow>
     \<exists>m. render_outcome self t (env self t vars) = Inl (FileNotFoundError m)
       \<or> render_outcome self t (env self t vars) = Inl (RuntimeError m)"
  by (simp add: renders_def render_outcome_def split: engine_result.splits)

lemma render_templates_ok:
  assumes "\<forall>t \<in> set ts. renders self vars t"
  shows "\<exists>w'. render_templates self out pt vars ts acc w =
             (Inr (acc @ map (\<lambda>t. path_str (output_file_of out pt t)) ts), w')
          \<and> log w' = log w @ concat (map (template_effects self out pt vars) ts)
          \<and> disk w' = foldl (\<lambda>d t. d(output_file_of out pt t \<mapsto> rendered_text self vars t)) (disk w) ts
          \<and> mode w' = mode w"
  using assms
proof (induction ts arbitrary: acc w)
  case Nil
  show ?case by simp
next
  case (Cons t ts)
  from Cons.prems have t: "env self t vars = Rendered (rendered_text self vars t)"
    and rest: "\<forall>x \<in> set ts. renders self vars x"
    by (simp_all add: renders_cases)
  let ?f = "output_file_of out pt t"
  let ?w1 = "print (''Generated: '' @ path_str ?f)
               (write_text ?f (rendered_text self vars t)
                  (mkdir_parents (path_parent ?f) (emit (Render t) w)))"
  have step: "render_templates self out pt vars (t # ts) acc w =
                render_templates self out pt vars ts (acc @ [path_str ?f]) ?w1"
    by (simp add: process_template_def render_outcome_def t Let_def)
  from Cons.IH [OF rest, of "acc @ [path_str ?f]" ?w1]
  obtain w' where w': "render_templates self out pt vars ts (acc @ [path_str ?f]) ?w1 =
             (Inr ((acc @ [path_str ?f]) @ map (\<lambda>t. path_str (output_file_of out pt t)) ts), w')"
          "log w' = log ?w1 @ concat (map (template_effects self out pt vars) ts)"
          "disk w' = foldl (\<lambda>d t. d(output_file_of out pt t \<mapsto> rendered_text self vars t)) (disk ?w1) ts"
          "mode w' = mode ?w1"
    by blast
  have l1: "log ?w1 = log w @ template_effects self out pt vars t"
    and d1: "disk ?w1 = (disk w)(?f \<mapsto> rendered_text self vars t)"
    and m1: "mode ?w1 = mode w"
    by (simp_all add: print_def write_text_def mkdir_parents_def emit_def template_effects_def Let_def)
  have "log w' = log w @ concat (map (template_effects self out pt vars) (t # ts))"
    using w'(2) l1 by simp
  moreover have "disk w' = foldl (\<lambda>d t. d(output_file_of out pt t \<mapsto> rendered_text self vars t)) (disk w) (t # ts)"
    using w'(3) d1 by (simp only: foldl_Cons)
  moreover have "mode w' = mode w"
    using w'(4) m1 by simp
  moreover have "render_templates self out pt vars (t # ts) acc w =
      (Inr (acc @ map (\<lambda>t. path_str (output_file_of out pt t)) (t # ts)), w')"
    using step w'(1) by simp
  ultimately show ?case by blast
qed

lemma render_templates_fail:
  assumes "\<forall>x \<in> set pre. renders self vars x" and "\<not> renders self vars t"
  shows "\<exists>e w'. render_templates self out pt vars (pre @ t # post) acc w = (Inl e, w')
          \<and> render_outcome self t (env self t vars) = Inl e
          \<and> log w' = log w @ concat (map (template_effects self out pt vars) pre) @ [Render t]
          \<and> disk w' = foldl (\<lambda>d t. d(output_file_of out pt t \<mapsto> rendered_text self vars t)) (disk w) pre
          \<and> mode w' = mode w"
  using assms(1)
proof (induction pre arbitrary: acc w)
  case Nil
  from not_renders_error [OF assms(2)] obtain e where
    e: "render_outcome self t (env self t vars) = Inl e" by blast
  then have "render_templates self out pt vars (t # post) acc w = (Inl e, emit (Render t) w)"
    by (simp add: process_template_def)
  with e show ?case by (simp add: emit_def)
next
  case (Cons x pre)
  from Cons.prems have x: "env self x vars = Rendered (rendered_text self vars x)"
    and rest: "\<forall>y \<in> set pre. renders self vars y"
    by (simp_all add: renders_cases)
  let ?f = "output_file_of out pt x"
  let ?w1 = "print (''Generated: '' @ path_str ?f)
               (write_text ?f (rendered_text self vars x)
                  (mkdir_parents (path_parent ?f) (emit (Render x) w)))"
  have step: "render_templates self out pt vars ((x # pre) @ t # post) acc w =
                render_templates self out pt vars (pre @ t # post) (acc @ [path_str ?f]) ?w1"
    by (simp add: process_template_def render_outcome_def x Let_def)
  from Cons.IH [OF rest, of "acc @ [path_str ?f]" ?w1]
  obtain e w' where w': "render_templates self out pt vars (pre @ t # post) (acc @ [path_str ?f]) ?w1 = (Inl e, w')"
          "render_outcome self t (env self t vars) = Inl e"
          "log w' = log ?w1 @ concat (map (template_effects self out pt vars) pre) @ [Render t]"
          "disk w' = foldl (\<lambda>d t. d(output_file_of out pt t \<mapsto> rendered_text self vars t)) (disk ?w1) pre"
          "mode w' = mode ?w1"
    by blast
  have l1: "log ?w1 = log w @ template_effects self out pt vars x"
    and d1: "disk ?w1 = (disk w)(?f \<mapsto> rendered_text self vars x)"
    and m1: "mode ?w1 = mode w"
    by (simp_all add: print_def write_text_def mkdir_parents_def emit_def template_effects_def Let_def)
  have "log w' = log w @ concat (map (template_effects self out pt vars) (x # pre)) @ [Render t]"
    using w'(3) l1 by simp
  moreover have "disk w' = foldl (\<lambda>d t. d(output_file_of out pt t \<mapsto> rendered_text self vars t)) (disk w) (x # pre)"
    using w'(4) d1 by (simp only: foldl_Cons)
  moreover have "mode w' = mode w"
    using w'(5) m1 by simp
  moreover have "render_templates self out pt vars ((x # pre) @ t # post) acc w = (Inl e, w')"
    using step w'(1) by simp
  ultimately show ?case using w'(2) by blast
qed

text \<open>
  C8. When the discovered templates are \<open>pre\<close>, then \<open>t\<close>, then \<open>post\<close>, every template of
  \<open>pre\<close> renders and \<open>t\<close> does not (it is not found, or the engine fails on it), generation
  raises the exception of \<open>t\<close>. The effects of the run are the creation of the output
  directory, the effects of the templates of \<open>pre\<close> and the rendering attempt of \<open>t\<close>:
  no template of \<open>post\<close> and no shared file is rendered or written. The files written
  for \<open>pre\<close> are on the disk.
\<close>

theorem generation_aborts_at_first_failure:
  assumes "get_template_files self project_type = Inr (pre @ t # post)"
      and "\<forall>x \<in> set pre. renders self vars x"
      and "\<not> renders self vars t"
  shows "\<exists>e w'. generate_project_files self output_dir project_type vars copy_shared w = (Inl e, w')
          \<and> render_outcome self t (env self t vars) = Inl e
          \<and> log w' = log w @ [MkDir (Path output_dir)]
               @ concat (map (template_effects self (Path output_dir) project_type vars) pre)
               @ [Render t]
          \<and> disk w' = foldl (\<lambda>d x. d(output_file_of (Path output_dir) project_type x
                                       \<mapsto> rendered_text self vars x)) (disk w) pre"
proof -
  let ?w0 = "mkdir_parents (Path output_dir) w"
  from render_templates_fail [OF assms(2,3), of "Path output_dir" project_type post "[]" ?w0]
  obtain e w' where w': "render_templates self (Path output_dir) project_type vars (pre @ t # post) [] ?w0 = (Inl e, w')"
          "render_outcome self t (env self t vars) = Inl e"
          "log w' = log ?w0 @ concat (map (template_effects self (Path output_dir) project_type vars) pre) @ [Render t]"
          "disk w' = foldl (\<lambda>d t. d(output_file_of (Path output_dir) project_type t \<mapsto> rendered_text self vars t)) (disk ?w0) pre"
    by blast
  have "generate_project_files self output_dir project_type vars copy_shared w = (Inl e, w')"
    by (simp add: generate_project_files_def assms(1) w'(1) Let_def)
  moreover have "log ?w0 = log w @ [MkDir (Path output_dir)]" "disk ?w0 = disk w"
    by (simp_all add: mkdir_parents_def emit_def)
  ultimately show ?thesis using w'(2,3,4) by (intro exI [of _ e] exI [of _ w']) simp
qed

section \<open>Properties of shared files\<close>

lemma Path_shared: "Path ''shared'' = PurePath [] [''shared'']"
  by (simp add: Path_def path_anchor_def path_parts_def)

lemma relative_to_prefix: "relative_to (base @ rel) base = Inr rel"
  by (simp add: relative_to_def)

lemma lookup_files_under:
  "distinct_names n \<Longrightarrow> p \<in> set (files_under n) \<Longrightarrow> \<exists>c. lookup_path n p = Some (File c)"
proof (induction n arbitrary: p rule: files_under.induct)
  case (1 c)
  then show ?case by simp
next
  case (2 es)
  from "2.prems"(2) obtain e p' where e: "e \<in> set es" "p' \<in> set (files_under (snd e))"
    "p = fst e # p'" by auto
  from "2.prems"(1) have d: "distinct (map fst es)" and sub: "distinct_names (snd e)"
    using e(1) by (simp_all add: list_all_iff)
  from d e(1) have "map_of es (fst e) = Some (snd e)" by simp
  moreover from "2.IH" [OF e(1) sub e(2)] obtain c where "lookup_path (snd e) p' = Some (File c)" ..
  ultimately show ?case using e(3) by simp
qed

lemma distinct_names_child:
  "distinct_names t \<Longrightarrow> lookup_path t [name] = Some n \<Longrightarrow> distinct_names n"
proof (cases t)
  case (File c)
  assume "lookup_path t [name] = Some n"
  with File show ?thesis by simp
next
  case (Dir es)
  assume "distinct_names t" "lookup_path t [name] = Some n"
  with Dir have m: "map_of es name = Some n" and a: "\<forall>e \<in> set es. distinct_names (snd e)"
    by (simp_all add: list_all_iff split: option.splits)
  from m have "(name, n) \<in> set es" by (rule map_of_SomeD)
  with a show ?thesis by force
qed

lemma lookup_path_child:
  "lookup_path t [name] = Some n \<Longrightarrow> lookup_path t (name # p) = lookup_path n p"
  by (cases t) (simp_all split: option.splits)

text \<open>Every shared file of the walk lies below \<open>shared\<close> and can be read.\<close>

lemma shared_files_readable:
  assumes "distinct_names (tree self)" and "(root, file) \<in> set (shared_files self)"
  shows "\<exists>q c. root = [''shared''] @ q \<and> read_file (tree self) (root @ [file]) = Some c"
proof -
  have "\<exists>n. lookup_path (tree self) [''shared''] = Some n
          \<and> (root, file) \<in> set (walk_files [''shared''] n)"
  proof (cases "lookup_path (tree self) [''shared'']")
    case None
    with assms(2) show ?thesis
      by (simp add: shared_files_def library_node_def Path_shared)
  next
    case (Some n)
    with assms(2) show ?thesis
      by (simp add: shared_files_def library_node_def Path_shared)
  qed
  then obtain n where n: "lookup_path (tree self) [''shared''] = Some n"
    and w: "(root, file) \<in> set (walk_files [''shared''] n)"
    by blast
  from w obtain q where q: "q @ [file] \<in> set (files_under n)" "root = [''shared''] @ q"
    unfolding in_walk_files by blast
  from distinct_names_child [OF assms(1) n] q(1)
  obtain c where "lookup_path n (q @ [file]) = Some (File c)"
    using lookup_files_under by blast
  with n q(2) have "read_file (tree self) (root @ [file]) = Some c"
    by (simp add: read_file_def lookup_path_child)
  with q(2) show ?thesis by blast
qed

lemma relative_to_shared:
  "prefix [''shared''] ps \<Longrightarrow> relative_to ps [''shared''] = Inr (drop 1 ps)"
  by (simp add: relative_to_def)

lemma shared_content_readable:
  assumes "read_file (tree self) src = Some c"
  shows "\<exists>content. shared_content self vars src = Some content"
  using assms by (simp add: shared_content_def split: engine_result.splits)

text \<open>One shared file, whatever the engine does with it, when the file can be read.\<close>

lemma copy_shared_file_run:
  assumes pre: "prefix [''shared''] root"
      and content: "shared_content self vars (root @ [file]) = Some content"
  shows "\<exists>w'. copy_shared_file self out vars root file w =
                 (Inr (path_str (shared_dest out (drop 1 (root @ [file])))), w')
          \<and> log w' = log w @ shared_effects self out vars (root, file)
          \<and> disk w' = (disk w)(shared_dest out (drop 1 (root @ [file])) \<mapsto> content)"
proof -
  from pre have "prefix [''shared''] (root @ [file])" by (rule prefix_prefix)
  then have rel: "relative_to (root @ [file]) [''shared''] = Inr (drop 1 (root @ [file]))"
    by (rule relative_to_shared)
  define rel_path where "rel_path = drop 1 (root @ [file])"
  define src where "src = root @ [file]"
  note rel' = rel [folded rel_path_def src_def]
  note content' = content [folded src_def]
  have eff: "shared_effects self out vars (root, file) =
     [MkDir (path_parent (shared_dest out rel_path)), Render (str_join ''/'' src)]
         @ (case render_outcome self (str_join ''/'' src) (env self (str_join ''/'' src) vars) of
              Inr content \<Rightarrow>
                [Write (shared_dest out rel_path) content,
                 Print (''Processed shared file: '' @ path_str (shared_dest out rel_path))]
            | Inl e \<Rightarrow>
                (if path_suffix (shared_dest out rel_path) = ''.sh''
                 then [Print (fallback_warning self src e)] else [])
                @ [Copy (truediv (templates_dir self) (PurePath [] src)) (shared_dest out rel_path),
                   Print (''Copied shared file (fallback): '' @ path_str (shared_dest out rel_path))])
         @ (if path_suffix (shared_dest out rel_path) = ''.sh''
            then [Chmod (shared_dest out rel_path) rwxr_xr_x] else [])"
    unfolding shared_effects_def rel_path_def src_def by (simp only: Let_def fst_conv snd_conv)
  have run: "copy_shared_file self out vars root file w =
     (let dest_file = shared_dest out rel_path;
          w = mkdir_parents (path_parent dest_file) w
      in case process_template self (str_join ''/'' src) vars w of
           (Inr content, w) \<Rightarrow>
             let w = write_text dest_file content w;
                 w = print (''Processed shared file: '' @ path_str dest_file) w;
                 w = make_executable dest_file w
             in (Inr (path_str dest_file), w)
         | (Inl e, w) \<Rightarrow>
             let w = (if path_suffix dest_file = ''.sh''
                      then print (fallback_warning self src e) w else w)
             in case copy2 self src dest_file w of
                  Inl e' \<Rightarrow> (Inl e', w)
                | Inr w \<Rightarrow>
                    let w = print (''Copied shared file (fallback): '' @ path_str dest_file) w;
                        w = make_executable dest_file w
                    in (Inr (path_str dest_file), w))"
    unfolding copy_shared_file_def src_def [symmetric]
    by (simp only: Let_def rel' sum.case)
  show ?thesis
    unfolding rel_path_def [symmetric] eff run
    using content'
    by (cases "env self (str_join ''/'' src) vars")
       (simp_all add: shared_content_def process_template_def render_outcome_def Let_def
          mkdir_parents_def write_text_def copy2_def print_def make_executable_def chmod_def
          emit_def)
qed

lemma copy_shared_loop_run:
  assumes "\<forall>rf \<in> set fs. prefix [''shared''] (fst rf)
             \<and> (\<exists>content. shared_content self vars (fst rf @ [snd rf]) = Some content)"
  shows "\<exists>w'. copy_shared_loop self out vars fs acc w =
                 (Inr (acc @ map (\<lambda>rf. path_str (shared_dest out (drop 1 (fst rf @ [snd rf])))) fs), w')
          \<and> log w' = log w @ concat (map (shared_effects self out vars) fs)
          \<and> disk w' = foldl (\<lambda>d rf. d(shared_dest out (drop 1 (fst rf @ [snd rf]))
                                         := shared_content self vars (fst rf @ [snd rf])))
                         (disk w) fs"
  using assms
proof (induction fs arbitrary: acc w)
  case Nil
  show ?case by simp
next
  case (Cons rf fs)
  obtain root name where rf: "rf = (root, name)" by (cases rf)
  from Cons.prems rf obtain content where pre: "prefix [''shared''] root"
    and content: "shared_content self vars (root @ [name]) = Some content"
    by auto
  from Cons.prems have rest: "\<forall>rf \<in> set fs. prefix [''shared''] (fst rf)
             \<and> (\<exists>content. shared_content self vars (fst rf @ [snd rf]) = Some content)"
    by simp
  let ?d = "shared_dest out (drop 1 (root @ [name]))"
  from copy_shared_file_run [OF pre content, of out w]
  obtain w1 where w1: "copy_shared_file self out vars root name w = (Inr (path_str ?d), w1)"
    "log w1 = log w @ shared_effects self out vars (root, name)"
    "disk w1 = (disk w)(?d \<mapsto> content)"
    by blast
  from Cons.IH [OF rest, of "acc @ [path_str ?d]" w1]
  obtain w' where w': "copy_shared_loop self out vars fs (acc @ [path_str ?d]) w1 =
                 (Inr ((acc @ [path_str ?d])
                        @ map (\<lambda>rf. path_str (shared_dest out (drop 1 (fst rf @ [snd rf])))) fs), w')"
          "log w' = log w1 @ concat (map (shared_effects self out vars) fs)"
          "disk w' = foldl (\<lambda>d rf. d(shared_dest out (drop 1 (fst rf @ [snd rf]))
                                         := shared_content self vars (fst rf @ [snd rf])))
                         (disk w1) fs"
    by blast
  have "copy_shared_loop self out vars (rf # fs) acc w =
          (Inr (acc @ map (\<lambda>rf. path_str (shared_dest out (drop 1 (fst rf @ [snd rf])))) (rf # fs)), w')"
    using w1(1) w'(1) by (simp add: rf)
  moreover have "log w' = log w @ concat (map (shared_effects self out vars) (rf # fs))"
    using w1(2) w'(2) by (simp add: rf)
  moreover have "disk w' = foldl (\<lambda>d rf. d(shared_dest out (drop 1 (fst rf @ [snd rf]))
                                         := shared_content self vars (fst rf @ [snd rf])))
                         (disk w) (rf # fs)"
    using w'(3) w1(3) content by (simp only: foldl_Cons rf fst_conv snd_conv)
  ultimately show ?case by blast
qed

lemma copy_shared_files_loop:
  "copy_shared_files self out vars w = copy_shared_loop self out vars (shared_files self) [] w"
  by (simp add: copy_shared_files_def shared_files_def split: option.splits)

lemma rendered_concat: "rendered (concat (map f xs)) = concat (map (\<lambda>x. rendered (f x)) xs)"
  by (induction xs) (simp_all add: rendered_append)

lemma written_concat: "written (concat (map f xs)) = concat (map (\<lambda>x. written (f x)) xs)"
  by (induction xs) (simp_all add: written_append)

lemma concat_map_singleton: "concat (map (\<lambda>x. [g x]) xs) = map g xs"
  by (induction xs) simp_all

lemma written_template_effects:
  "written (template_effects self out pt vars t) = [output_file_of out pt t]"
  by (simp add: template_effects_def Let_def)

lemma rendered_template_effects:
  "rendered (template_effects self out pt vars t) = [t]"
  by (simp add: template_effects_def Let_def)

lemma written_shared_effects:
  "written (shared_effects self out vars rf) = [shared_dest out (drop 1 (fst rf @ [snd rf]))]"
  by (simp add: shared_effects_def Let_def written_append split: sum.splits)

lemma rendered_shared_effects:
  "rendered (shared_effects self out vars rf) = [str_join ''/'' (fst rf @ [snd rf])]"
  by (simp add: shared_effects_def Let_def rendered_append split: sum.splits)

text \<open>
  C10. With shared-file processing enabled, when the names in each directory of the
  library are distinct and every discovered project template renders, generation returns
  the destinations of the project templates in discovery order followed by the
  destinations of the shared files in the order of the walk, one entry for each shared
  file whether the engine rendered it or not. The effects of the run are the creation of
  the output directory, then the effects of each project template (rendered, written),
  then the effects of each shared file (rendered and written, or copied): the templates
  whose rendering was attempted and the files written or copied are these, in this order.
  The disk holds the rendered text of each project template and then, for each shared
  file, its rendered text or the content of its source. The operations of the file
  system themselves succeed, as everywhere in this model.
\<close>

theorem generated_files_order:
  assumes "distinct_names (tree self)"
      and "get_template_files self project_type = Inr ts"
      and "\<forall>t \<in> set ts. renders self vars t"
  shows "\<exists>w'. generate_project_files self output_dir project_type vars True w =
                 (Inr (map (\<lambda>t. path_str (output_file_of (Path output_dir) project_type t)) ts
                       @ map (\<lambda>(root, file). path_str (shared_dest (Path output_dir) (drop 1 (root @ [file]))))
                           (shared_files self)), w')
          \<and> log w' =
              log w @ [MkDir (Path output_dir)]
                @ concat (map (template_effects self (Path output_dir) project_type vars) ts)
                @ concat (map (shared_effects self (Path output_dir) vars) (shared_files self))
          \<and> rendered (log w') =
              rendered (log w) @ ts
                @ map (\<lambda>(root, file). str_join ''/'' (root @ [file])) (shared_files self)
          \<and> written (log w') =
              written (log w)
                @ map (output_file_of (Path output_dir) project_type) ts
                @ map (\<lambda>(root, file). shared_dest (Path output_dir) (drop 1 (root @ [file])))
                    (shared_files self)
          \<and> disk w' =
              foldl (\<lambda>d (root, file). d(shared_dest (Path output_dir) (drop 1 (root @ [file]))
                                          := shared_content self vars (root @ [file])))
                (foldl (\<lambda>d t. d(output_file_of (Path output_dir) project_type t
                                   \<mapsto> rendered_text self vars t)) (disk w) ts)
                (shared_files self)
          \<and> (\<forall>(root, file) \<in> set (shared_files self).
                \<exists>content. shared_content self vars (root @ [file]) = Some content)"
proof -
  let ?out = "Path output_dir"
  let ?w0 = "mkdir_parents ?out w"
  from render_templates_ok [OF assms(3), of ?out project_type "[]" ?w0]
  obtain w1 where w1: "render_templates self ?out project_type vars ts [] ?w0 =
             (Inr (map (\<lambda>t. path_str (output_file_of ?out project_type t)) ts), w1)"
          "log w1 = log ?w0 @ concat (map (template_effects self ?out project_type vars) ts)"
          "disk w1 = foldl (\<lambda>d t. d(output_file_of ?out project_type t \<mapsto> rendered_text self vars t))
                       (disk ?w0) ts"
    by auto
  have readable: "\<forall>rf \<in> set (shared_files self). prefix [''shared''] (fst rf)
             \<and> (\<exists>content. shared_content self vars (fst rf @ [snd rf]) = Some content)"
  proof
    fix rf assume "rf \<in> set (shared_files self)"
    then have "(fst rf, snd rf) \<in> set (shared_files self)" by simp
    from shared_files_readable [OF assms(1) this]
    obtain q c where "fst rf = [''shared''] @ q" "read_file (tree self) (fst rf @ [snd rf]) = Some c"
      by blast
    then show "prefix [''shared''] (fst rf)
             \<and> (\<exists>content. shared_content self vars (fst rf @ [snd rf]) = Some content)"
      using shared_content_readable [of self "fst rf @ [snd rf]" c vars] by simp
  qed
  from copy_shared_loop_run [OF readable, of ?out "[]" w1]
  obtain w2 where w2: "copy_shared_loop self ?out vars (shared_files self) [] w1 =
                 (Inr (map (\<lambda>rf. path_str (shared_dest ?out (drop 1 (fst rf @ [snd rf])))) (shared_files self)), w2)"
          "log w2 = log w1 @ concat (map (shared_effects self ?out vars) (shared_files self))"
          "disk w2 = foldl (\<lambda>d rf. d(shared_dest ?out (drop 1 (fst rf @ [snd rf]))
                                         := shared_content self vars (fst rf @ [snd rf])))
                         (disk w1) (shared_files self)"
    by auto
  have run: "generate_project_files self output_dir project_type vars True w =
                 (Inr (map (\<lambda>t. path_str (output_file_of ?out project_type t)) ts
                       @ map (\<lambda>(root, file). path_str (shared_dest ?out (drop 1 (root @ [file]))))
                           (shared_files self)), w2)"
    by (simp add: generate_project_files_def assms(2) w1(1) copy_shared_files_loop w2(1) Let_def
          case_prod_beta)
  have lg: "log w2 = log w @ [MkDir ?out]
                @ concat (map (template_effects self ?out project_type vars) ts)
                @ concat (map (shared_effects self ?out vars) (shared_files self))"
    by (simp add: w2(2) w1(2) mkdir_parents_def emit_def)
  have rd: "rendered (log w2) = rendered (log w) @ ts
                @ map (\<lambda>(root, file). str_join ''/'' (root @ [file])) (shared_files self)"
    unfolding lg
    by (simp add: rendered_append rendered_concat rendered_template_effects
          rendered_shared_effects concat_map_singleton case_prod_beta)
  have wr: "written (log w2) = written (log w)
                @ map (output_file_of ?out project_type) ts
                @ map (\<lambda>(root, file). shared_dest ?out (drop 1 (root @ [file]))) (shared_files self)"
    unfolding lg
    by (simp add: written_append written_concat written_template_effects
          written_shared_effects concat_map_singleton case_prod_beta)
  have dk: "disk w2 =
              foldl (\<lambda>d (root, file). d(shared_dest ?out (drop 1 (root @ [file]))
                                          := shared_content self vars (root @ [file])))
                (foldl (\<lambda>d t. d(output_file_of ?out project_type t
                                   \<mapsto> rendered_text self vars t)) (disk w) ts)
                (shared_files self)"
  proof -
    have d0: "disk ?w0 = disk w"
      by (simp add: mkdir_parents_def emit_def)
    have cp: "(\<lambda>d (root, file). d(shared_dest ?out (drop 1 (root @ [file]))
                                          := shared_content self vars (root @ [file])))
              = (\<lambda>d rf. d(shared_dest ?out (drop 1 (fst rf @ [snd rf]))
                                          := shared_content self vars (fst rf @ [snd rf])))"
      by (intro ext) (simp add: case_prod_beta)
    show ?thesis unfolding cp w2(3) w1(3) d0 by (rule refl)
  qed
  have ct: "\<forall>(root, file) \<in> set (shared_files self).
                \<exists>content. shared_content self vars (root @ [file]) = Some content"
    using readable by (simp add: case_prod_beta)
  from run lg rd wr dk ct show ?thesis by blast
qed

text \<open>The extension of the destination is that of the source name without its marker suffix.\<close>

lemma shared_dest_suffix:
  assumes "rel \<noteq> []"
  shows "path_suffix (shared_dest out rel) =
           name_suffix (if name_suffix (last rel) = ''.template''
                        then take (length (last rel) - length ''.template'') (last rel)
                        else last rel)"
  using assms
  by (simp add: shared_dest_def truediv_def path_suffix_def path_name_def with_suffix_empty_def Let_def)

lemma name_suffix_append_marker:
  "name_suffix (stem @ ''.template'') = (if stem = [] then [] else ''.template'')"
  by (simp add: name_suffix_def Let_def)

lemma name_suffix_is_suffix:
  assumes "name_suffix name = s" and "s \<noteq> []"
  shows "suffix s name"
proof -
  let ?P = "\<lambda>c. c \<noteq> CHR ''.''"
  let ?ext = "rev (takeWhile ?P (rev name))"
  from assms have dot: "CHR ''.'' \<in> set name" and s: "s = CHR ''.'' # ?ext"
    by (auto simp add: name_suffix_def Let_def split: if_splits)
  from dot have ne: "dropWhile ?P (rev name) \<noteq> []"
    by (auto simp add: dropWhile_eq_Nil_conv)
  then have "\<not> ?P (hd (dropWhile ?P (rev name)))" by (rule hd_dropWhile)
  with ne obtain rest where rest: "dropWhile ?P (rev name) = CHR ''.'' # rest"
    by (cases "dropWhile ?P (rev name)") auto
  have "rev name = takeWhile ?P (rev name) @ dropWhile ?P (rev name)" by simp
  then have "rev (rev name) = rev (takeWhile ?P (rev name) @ CHR ''.'' # rest)"
    unfolding rest by (rule arg_cong)
  then have nm: "name = rev rest @ CHR ''.'' # ?ext" by simp
  show ?thesis unfolding s by (rule suffixI) (rule nm)
qed

lemma name_suffix_marker:
  "name_suffix name = ''.template'' \<longleftrightarrow> endswith name ''.template'' \<and> name \<noteq> ''.template''"
proof
  assume m: "name_suffix name = ''.template''"
  then have "suffix ''.template'' name" by (rule name_suffix_is_suffix) simp
  moreover have "name \<noteq> ''.template''"
    using m name_suffix_append_marker [of "[]"] by auto
  ultimately show "endswith name ''.template'' \<and> name \<noteq> ''.template''"
    by (simp add: endswith_def)
next
  assume "endswith name ''.template'' \<and> name \<noteq> ''.template''"
  then obtain stem where "name = stem @ ''.template''" "stem \<noteq> []"
    by (auto simp add: endswith_def suffix_def)
  then show "name_suffix name = ''.template''"
    by (simp only: name_suffix_append_marker if_False)
qed

text \<open>The destination has the extension \<open>.sh\<close> exactly when the source is a script.\<close>

lemma shared_dest_script:
  assumes "rel \<noteq> []"
  shows "path_suffix (shared_dest out rel) = ''.sh'' \<longleftrightarrow> has_script_extension (last rel)"
proof (cases "name_suffix (last rel) = ''.template''")
  case True
  then have "endswith (last rel) ''.template''" by (simp add: name_suffix_marker)
  with True show ?thesis
    by (simp add: shared_dest_suffix [OF assms] has_script_extension_def strip_marker_def)
next
  case False
  show ?thesis
  proof (cases "endswith (last rel) ''.template''")
    case True
    with False have "last rel = ''.template''" by (simp add: name_suffix_marker)
    then show ?thesis
      by (simp add: shared_dest_suffix [OF assms] has_script_extension_def strip_marker_def
            endswith_def name_suffix_def)
  next
    case no: False
    with False show ?thesis
      by (simp add: shared_dest_suffix [OF assms] has_script_extension_def strip_marker_def)
  qed
qed

text \<open>
  The fallback for one shared file, with the test the code makes: the extension of the
  destination.
\<close>

lemma copy_shared_file_fallback:
  assumes "\<not> renders self vars (str_join ''/'' (root @ [file]))"
      and "relative_to (root @ [file]) [''shared''] = Inr rel"
      and "read_file (tree self) (root @ [file]) = Some content"
  shows "\<exists>e w'. render_outcome self (str_join ''/'' (root @ [file]))
                   (env self (str_join ''/'' (root @ [file])) vars) = Inl e
          \<and> copy_shared_file self out vars root file w = (Inr (path_str (shared_dest out rel)), w')
          \<and> disk w' (shared_dest out rel) = Some content
          \<and> (Print (fallback_warning self (root @ [file]) e) \<in> set (drop (length (log w)) (log w'))
               \<longleftrightarrow> path_suffix (shared_dest out rel) = ''.sh'')"
proof -
  let ?tp = "str_join ''/'' (root @ [file])"
  let ?dest = "shared_dest out rel"
  from not_renders_error [OF assms(1)] obtain e where
    e: "render_outcome self ?tp (env self ?tp vars) = Inl e" by blast
  show ?thesis
  proof (cases "path_suffix ?dest = ''.sh''")
    case True
    let ?w' = "make_executable ?dest
                 (print (''Copied shared file (fallback): '' @ path_str ?dest)
                    (emit (Copy (truediv (templates_dir self) (PurePath [] (root @ [file]))) ?dest)
                       ((print (fallback_warning self (root @ [file]) e)
                           (emit (Render ?tp) (mkdir_parents (path_parent ?dest) w)))
                          \<lparr>disk := (disk w)(?dest \<mapsto> content)\<rparr>)))"
    have run: "copy_shared_file self out vars root file w = (Inr (path_str ?dest), ?w')"
      using True e assms(2,3)
      by (simp add: copy_shared_file_def process_template_def copy2_def Let_def
            print_def emit_def mkdir_parents_def)
    have "disk ?w' ?dest = Some content"
      by (simp add: make_executable_def chmod_def print_def emit_def)
    moreover have "Print (fallback_warning self (root @ [file]) e) \<in> set (drop (length (log w)) (log ?w'))"
      by (simp add: make_executable_def chmod_def print_def emit_def mkdir_parents_def)
    ultimately show ?thesis using e run True by blast
  next
    case False
    let ?w' = "print (''Copied shared file (fallback): '' @ path_str ?dest)
                 (emit (Copy (truediv (templates_dir self) (PurePath [] (root @ [file]))) ?dest)
                    ((emit (Render ?tp) (mkdir_parents (path_parent ?dest) w))
                       \<lparr>disk := (disk w)(?dest \<mapsto> content)\<rparr>))"
    have run: "copy_shared_file self out vars root file w = (Inr (path_str ?dest), ?w')"
      using False e assms(2,3)
      by (simp add: copy_shared_file_def process_template_def copy2_def Let_def
            make_executable_def print_def emit_def mkdir_parents_def)
    have "disk ?w' ?dest = Some content"
      by (simp add: print_def emit_def)
    moreover have "Print (fallback_warning self (root @ [file]) e) \<notin> set (drop (length (log w)) (log ?w'))"
      by (simp add: print_def emit_def mkdir_parents_def fallback_warning_def)
    ultimately show ?thesis using e run False by blast
  qed
qed

text \<open>
  C3. For a shared file (a file of a directory below \<open>shared\<close>) that the engine does not
  render, because the template is not found or because rendering fails, processing the
  file returns normally, the destination holds the content of the source file, and the
  warning that names the source file and the failure is printed if and only if the
  source file has a script extension: its extension, the marker suffix set aside, is
  \<open>.sh\<close>.
\<close>

theorem shared_fallback_copy:
  assumes "\<not> renders self vars (str_join ''/'' (root @ [file]))"
      and "prefix [''shared''] root"
      and "read_file (tree self) (root @ [file]) = Some content"
  shows "\<exists>e w'. render_outcome self (str_join ''/'' (root @ [file]))
                   (env self (str_join ''/'' (root @ [file])) vars) = Inl e
          \<and> copy_shared_file self out vars root file w =
              (Inr (path_str (shared_dest out (drop 1 (root @ [file])))), w')
          \<and> disk w' (shared_dest out (drop 1 (root @ [file]))) = Some content
          \<and> (Print (fallback_warning self (root @ [file]) e) \<in> set (drop (length (log w)) (log w'))
               \<longleftrightarrow> has_script_extension file)"
proof -
  from assms(2) obtain q where q: "root = ''shared'' # q"
    by (cases root) auto
  then have d: "drop 1 (root @ [file]) = q @ [file]" by simp
  from assms(2) have "prefix [''shared''] (root @ [file])" by (rule prefix_prefix)
  then have rel: "relative_to (root @ [file]) [''shared''] = Inr (q @ [file])"
    unfolding d [symmetric] by (rule relative_to_shared)
  have "path_suffix (shared_dest out (q @ [file])) = ''.sh'' \<longleftrightarrow> has_script_extension file"
    using shared_dest_script [of "q @ [file]" out] by simp
  with copy_shared_file_fallback [OF assms(1) rel assms(3), of out w]
  show ?thesis unfolding d by simp
qed

theorem shared_fallback_copy_witness:
  "\<not> renders example_processor defaults_example (str_join ''/'' ([''shared''] @ [''build.sh.template'']))
   \<and> prefix [''shared''] [''shared'']
   \<and> read_file (tree example_processor) ([''shared''] @ [''build.sh.template'']) = Some ''cmake -B {{ build_dir ''
   \<and> has_script_extension ''build.sh.template''
   \<and> (\<exists>e w'. copy_shared_file example_processor (Path ''out'') defaults_example [''shared'']
                 ''build.sh.template'' empty_world = (Inr ''out/build.sh'', w')
          \<and> disk w' (shared_dest (Path ''out'') [''build.sh.template'']) = Some ''cmake -B {{ build_dir ''
          \<and> Print (fallback_warning example_processor ([''shared''] @ [''build.sh.template'']) e)
               \<in> set (drop (length (log empty_world)) (log w')))"
proof -
  have a: "\<not> renders example_processor defaults_example (str_join ''/'' ([''shared''] @ [''build.sh.template'']))"
    by (simp add: renders_def example_processor_def example_engine_def)
  have b: "prefix [''shared''] [''shared'']"
    by simp
  have c: "read_file (tree example_processor) ([''shared''] @ [''build.sh.template'']) = Some ''cmake -B {{ build_dir ''"
    by (simp add: read_file_def example_processor_def example_tree_def)
  have d: "has_script_extension ''build.sh.template''"
    by code_simp
  have s: "path_str (shared_dest (Path ''out'') [''build.sh.template'']) = ''out/build.sh''"
    by code_simp
  from shared_fallback_copy [OF a b c, of "Path ''out''" empty_world] a b c d s
  show ?thesis by auto
qed

text \<open>
  A file that is not a script and does not render is copied without the warning: the
  shared file \<open>cmake/Warnings.cmake\<close> with an engine that finds no template.
\<close>

lemma shared_fallback_silent_example:
  "\<not> has_script_extension ''Warnings.cmake''
   \<and> rendered (log (snd (copy_shared_file failing_processor (Path ''out'') defaults_example
                            [''shared'', ''cmake''] ''Warnings.cmake'' empty_world)))
       = [''shared/cmake/Warnings.cmake'']
   \<and> log (snd (copy_shared_file failing_processor (Path ''out'') defaults_example
                  [''shared'', ''cmake''] ''Warnings.cmake'' empty_world))
       = [MkDir (PurePath [] [''out'', ''cmake'']),
          Render ''shared/cmake/Warnings.cmake'',
          Copy (PurePath [] [''templates'', ''shared'', ''cmake'', ''Warnings.cmake''])
               (PurePath [] [''out'', ''cmake'', ''Warnings.cmake'']),
          Print ''Copied shared file (fallback): out/cmake/Warnings.cmake'']"
  by code_simp

section \<open>Concrete runs\<close>

lemma example_console_templates:
  "get_template_files example_processor ''console'' =
     Inr [''console/CMakeLists.txt.template'', ''console/src/main.cpp.template'']"
  by code_simp

theorem get_template_files_discovery_witness:
  "library_node example_processor (Path ''gui'') = None
   \<and> get_template_files example_processor ''gui'' =
       Inl (ValueError (''Project type '' @ apos @ ''gui'' @ apos @ '' not found in templates''))
   \<and> get_template_files example_processor ''console'' =
       Inr [''console/CMakeLists.txt.template'', ''console/src/main.cpp.template'']
   \<and> (\<exists>n. library_node example_processor (Path ''console'') = Some n
        \<and> {''console/CMakeLists.txt.template'', ''console/src/main.cpp.template''} =
            (\<lambda>p. str_join ''/'' (parts (Path ''console'') @ p))
              ` {p \<in> set (files_under n). p \<noteq> [] \<and> endswith (last p) ''.template''})"
proof -
  have a: "library_node example_processor (Path ''gui'') = None"
    by code_simp
  have b: "library_node example_processor (Path ''console'') =
             Some (Dir [(''CMakeLists.txt.template'', File ''project({{ project_name }})''),
                        (''README.md'', File ''notes''),
                        (''src'', Dir [(''main.cpp.template'', File ''int main() {}'')])])"
    by code_simp
  from get_template_files_discovery [of example_processor "''gui''"] a
  have "get_template_files example_processor ''gui'' =
       Inl (ValueError (''Project type '' @ apos @ ''gui'' @ apos @ '' not found in templates''))"
    by blast
  moreover
  from get_template_files_discovery [of example_processor "''console''"] b
  obtain ts where "get_template_files example_processor ''console'' = Inr ts"
    "set ts = (\<lambda>p. str_join ''/'' (parts (Path ''console'') @ p))
        ` {p \<in> set (files_under (Dir [(''CMakeLists.txt.template'', File ''project({{ project_name }})''),
                        (''README.md'', File ''notes''),
                        (''src'', Dir [(''main.cpp.template'', File ''int main() {}'')])])).
             p \<noteq> [] \<and> endswith (last p) ''.template''}"
    by blast
  ultimately show ?thesis using a b example_console_templates by auto
qed

theorem generation_aborts_at_first_failure_witness:
  "get_template_files failing_processor ''console'' =
     Inr ([''console/CMakeLists.txt.template''] @ ''console/src/main.cpp.template'' # [])
   \<and> renders failing_processor defaults_example ''console/CMakeLists.txt.template''
   \<and> \<not> renders failing_processor defaults_example ''console/src/main.cpp.template''
   \<and> (\<exists>e w'. generate_project_files failing_processor ''out'' ''console'' defaults_example True
                 empty_world = (Inl e, w')
          \<and> rendered (log w') = [''console/CMakeLists.txt.template'', ''console/src/main.cpp.template'']
          \<and> written (log w') = [output_file_of (Path ''out'') ''console'' ''console/CMakeLists.txt.template'']
          \<and> disk w' (output_file_of (Path ''out'') ''console'' ''console/CMakeLists.txt.template'')
               = Some ''project(Widgets)'')"
proof -
  have a: "get_template_files failing_processor ''console'' =
     Inr ([''console/CMakeLists.txt.template''] @ ''console/src/main.cpp.template'' # [])"
    by code_simp
  have b: "\<forall>x \<in> set [''console/CMakeLists.txt.template'']. renders failing_processor defaults_example x"
    by (simp add: renders_def failing_processor_def failing_engine_def)
  have c: "\<not> renders failing_processor defaults_example ''console/src/main.cpp.template''"
    by (simp add: renders_def failing_processor_def failing_engine_def)
  have t: "rendered_text failing_processor defaults_example ''console/CMakeLists.txt.template''
             = ''project(Widgets)''"
    by (simp add: rendered_text_def failing_processor_def failing_engine_def)
  from generation_aborts_at_first_failure [OF a b c, of "''out''" True empty_world]
  obtain e w' where r: "generate_project_files failing_processor ''out'' ''console'' defaults_example True
                 empty_world = (Inl e, w')"
    "log w' = log empty_world @ [MkDir (Path ''out'')]
               @ concat (map (template_effects failing_processor (Path ''out'') ''console'' defaults_example)
                          [''console/CMakeLists.txt.template''])
               @ [Render ''console/src/main.cpp.template'']"
    "disk w' = foldl (\<lambda>d x. d(output_file_of (Path ''out'') ''console'' x
                                       \<mapsto> rendered_text failing_processor defaults_example x))
                 (disk empty_world) [''console/CMakeLists.txt.template'']"
    by blast
  from r(2) have "rendered (log w') = [''console/CMakeLists.txt.template'', ''console/src/main.cpp.template'']"
    and "written (log w') = [output_file_of (Path ''out'') ''console'' ''console/CMakeLists.txt.template'']"
    by (simp_all add: empty_world_def template_effects_def Let_def)
  moreover from r(3) t
  have "disk w' (output_file_of (Path ''out'') ''console'' ''console/CMakeLists.txt.template'')
               = Some ''project(Widgets)''"
    by simp
  ultimately show ?thesis using a b c r(1) by auto
qed

theorem generated_files_order_witness:
  "distinct_names (tree example_processor)
   \<and> get_template_files example_processor ''console'' =
       Inr [''console/CMakeLists.txt.template'', ''console/src/main.cpp.template'']
   \<and> renders example_processor defaults_example ''console/CMakeLists.txt.template''
   \<and> renders example_processor defaults_example ''console/src/main.cpp.template''
   \<and> \<not> renders example_processor defaults_example ''shared/build.sh.template''
   \<and> (\<exists>w'. generate_project_files example_processor ''out'' ''console'' defaults_example True
               empty_world =
               (Inr [''out/CMakeLists.txt'', ''out/src/main.cpp'', ''out/build.sh'',
                     ''out/cmake/Warnings.cmake''], w')
          \<and> rendered (log w') =
               [''console/CMakeLists.txt.template'', ''console/src/main.cpp.template'',
                ''shared/build.sh.template'', ''shared/cmake/Warnings.cmake'']
          \<and> map path_str (written (log w')) =
               [''out/CMakeLists.txt'', ''out/src/main.cpp'', ''out/build.sh'',
                ''out/cmake/Warnings.cmake'']
          \<and> disk w' (PurePath [] [''out'', ''src'', ''main.cpp'']) = Some ''int main() {}''
          \<and> disk w' (PurePath [] [''out'', ''build.sh'']) = Some ''cmake -B {{ build_dir '')"
proof -
  have a: "distinct_names (tree example_processor)"
    by code_simp
  have b: "\<forall>t \<in> set [''console/CMakeLists.txt.template'', ''console/src/main.cpp.template''].
             renders example_processor defaults_example t"
    by (simp add: renders_def example_processor_def example_engine_def)
  have c: "\<not> renders example_processor defaults_example ''shared/build.sh.template''"
    by (simp add: renders_def example_processor_def example_engine_def)
  have p: "map (\<lambda>t. path_str (output_file_of (Path ''out'') ''console'' t))
             [''console/CMakeLists.txt.template'', ''console/src/main.cpp.template'']
           @ map (\<lambda>(root, file). path_str (shared_dest (Path ''out'') (drop 1 (root @ [file]))))
             (shared_files example_processor)
           = [''out/CMakeLists.txt'', ''out/src/main.cpp'', ''out/build.sh'',
              ''out/cmake/Warnings.cmake'']"
    by code_simp
  have rd: "rendered (log empty_world)
              @ [''console/CMakeLists.txt.template'', ''console/src/main.cpp.template'']
              @ map (\<lambda>(root, file). str_join ''/'' (root @ [file])) (shared_files example_processor)
           = [''console/CMakeLists.txt.template'', ''console/src/main.cpp.template'',
              ''shared/build.sh.template'', ''shared/cmake/Warnings.cmake'']"
    by code_simp
  have wr: "map path_str (written (log empty_world)
              @ map (output_file_of (Path ''out'') ''console'')
                  [''console/CMakeLists.txt.template'', ''console/src/main.cpp.template'']
              @ map (\<lambda>(root, file). shared_dest (Path ''out'') (drop 1 (root @ [file])))
                  (shared_files example_processor))
           = [''out/CMakeLists.txt'', ''out/src/main.cpp'', ''out/build.sh'',
              ''out/cmake/Warnings.cmake'']"
    by code_simp
  have d1: "foldl (\<lambda>d (root, file). d(shared_dest (Path ''out'') (drop 1 (root @ [file]))
                                          := shared_content example_processor defaults_example (root @ [file])))
                (foldl (\<lambda>d t. d(output_file_of (Path ''out'') ''console'' t
                                   \<mapsto> rendered_text example_processor defaults_example t))
                   (disk empty_world)
                   [''console/CMakeLists.txt.template'', ''console/src/main.cpp.template''])
                (shared_files example_processor)
              (PurePath [] [''out'', ''src'', ''main.cpp'']) = Some ''int main() {}''"
    by code_simp
  have d2: "foldl (\<lambda>d (root, file). d(shared_dest (Path ''out'') (drop 1 (root @ [file]))
                                          := shared_content example_processor defaults_example (root @ [file])))
                (foldl (\<lambda>d t. d(output_file_of (Path ''out'') ''console'' t
                                   \<mapsto> rendered_text example_processor defaults_example t))
                   (disk empty_world)
                   [''console/CMakeLists.txt.template'', ''console/src/main.cpp.template''])
                (shared_files example_processor)
              (PurePath [] [''out'', ''build.sh'']) = Some ''cmake -B {{ build_dir ''"
    by code_simp
  from generated_files_order [OF a example_console_templates b, of "''out''" empty_world]
  obtain w' where r: "generate_project_files example_processor ''out'' ''console'' defaults_example True
               empty_world =
                 (Inr (map (\<lambda>t. path_str (output_file_of (Path ''out'') ''console'' t))
                        [''console/CMakeLists.txt.template'', ''console/src/main.cpp.template'']
                       @ map (\<lambda>(root, file). path_str (shared_dest (Path ''out'') (drop 1 (root @ [file]))))
                           (shared_files example_processor)), w')"
          "rendered (log w') =
              rendered (log empty_world)
                @ [''console/CMakeLists.txt.template'', ''console/src/main.cpp.template'']
                @ map (\<lambda>(root, file). str_join ''/'' (root @ [file])) (shared_files example_processor)"
          "written (log w') =
              written (log empty_world)
                @ map (output_file_of (Path ''out'') ''console'')
                    [''console/CMakeLists.txt.template'', ''console/src/main.cpp.template'']
                @ map (\<lambda>(root, file). shared_dest (Path ''out'') (drop 1 (root @ [file])))
                    (shared_files example_processor)"
          "disk w' =
              foldl (\<lambda>d (root, file). d(shared_dest (Path ''out'') (drop 1 (root @ [file]))
                                          := shared_content example_processor defaults_example (root @ [file])))
                (foldl (\<lambda>d t. d(output_file_of (Path ''out'') ''console'' t
                                   \<mapsto> rendered_text example_processor defaults_example t))
                   (disk empty_world)
                   [''console/CMakeLists.txt.template'', ''console/src/main.cpp.template''])
                (shared_files example_processor)"
    by blast
  have "generate_project_files example_processor ''out'' ''console'' defaults_example True
               empty_world =
               (Inr [''out/CMakeLists.txt'', ''out/src/main.cpp'', ''out/build.sh'',
                     ''out/cmake/Warnings.cmake''], w')"
    using r(1) unfolding p .
  moreover have "rendered (log w') =
               [''console/CMakeLists.txt.template'', ''console/src/main.cpp.template'',
                ''shared/build.sh.template'', ''shared/cmake/Warnings.cmake'']"
    using r(2) unfolding rd .
  moreover have "map path_str (written (log w')) =
               [''out/CMakeLists.txt'', ''out/src/main.cpp'', ''out/build.sh'',
                ''out/cmake/Warnings.cmake'']"
    unfolding r(3) by (rule wr)
  moreover have "disk w' (PurePath [] [''out'', ''src'', ''main.cpp'']) = Some ''int main() {}''"
    unfolding r(4) by (rule d1)
  moreover have "disk w' (PurePath [] [''out'', ''build.sh'']) = Some ''cmake -B {{ build_dir ''"
    unfolding r(4) by (rule d2)
  ultimately show ?thesis using a b c example_console_templates by auto
qed

end
